theory Spec2Isabelle
  imports Complex_Main "HOL-Library.AList"
begin

section \<open>The budget ledger of script.js\<close>

text \<open>
  The source file holds three variants of the application. The first one (module-level
  variables \<open>budgets\<close>, \<open>categories\<close>, \<open>readyToAssign\<close>, typed transactions, derived
  activity and available figures) is embedded in this section; the third one (the
  \<open>budget\<close> object with cached \<open>activity\<close> and \<open>available\<close> fields) in the next.

  The handlers embedded are the ones the properties below are about. Adding a category,
  the bulk import, deleting a debt or a goal, the migration of old documents and the
  loading of a file are not embedded.

  Conventions of the embedding.
  \<^item> Amounts are JavaScript numbers in the source. They are modelled as exact rationals:
    the theorems are about the bookkeeping, not about the rounding of doubles.
  \<^item> A calendar month \<open>yyyy-MM\<close> is identified with its index \<open>12 * yyyy + MM - 1\<close>, so
    that date-fns \<open>addMonths\<close> on month keys is addition and
    \<open>differenceInCalendarMonths\<close> is subtraction. A date string \<open>yyyy-MM-dd\<close> is a month
    and a day, and \<open>format(parseISO(d), 'yyyy-MM')\<close> is the field \<open>monthOf\<close>.
  \<^item> A JavaScript object used as a dictionary is an association list in insertion order
    (the order of \<open>for ... in\<close> and \<open>Object.values\<close>); reading a property is \<open>map_of\<close>,
    assigning one is \<open>AList.update\<close> (in place when the key exists, appended otherwise).
  \<^item> Every \<open>uuidv4()\<close> and \<open>new Date()\<close> of a handler is a parameter of its model, and so
    are the values of the form fields it reads and the answer to \<open>confirm\<close>.
  \<^item> A handler returns what it told the user (\<open>outcome\<close>) and the state it left behind.
  \<^item> Of the rendering only its write to the state is modelled: \<open>renderUI\<close> calls
    \<open>getMonthData(currentMonth)\<close>. Saving the document to the file changes no state.
\<close>

type_synonym ident = string
type_synonym month = int

record date =
  monthOf :: month
  dayOf :: nat

datatype txType = Income | Expense

record transaction =
  tid :: ident
  tdate :: date
  amount :: rat
  description :: string
  ttype :: txType
  categoryId :: "ident option"

text \<open>\<open>budgets[month]\<close>: the \<open>categories\<close> object maps a category id to \<open>{ assigned }\<close>.\<close>

record monthData =
  mcategories :: "(ident \<times> rat) list"
  transactions :: "transaction list"

text \<open>
  An entry of the persistent \<open>categories\<close> object. Its \<open>id\<close> property repeats the key it
  is stored under (\<open>addPersistentCategory\<close> writes both from one value), so the key is
  the id.
\<close>

record category =
  cname :: string
  parentCategory :: string
  createdDate :: date
  isActive :: bool

record payment =
  pdate :: date
  pamount :: rat

record debt =
  did :: ident
  dname :: string
  originalBalance :: rat
  currentBalance :: rat
  interestRate :: rat
  minPayment :: rat
  paymentHistory :: "payment list"

record goal =
  gid :: ident
  gname :: string
  gdescription :: string
  dueDate :: date
  totalAmount :: rat
  monthlyContribution :: rat

record state =
  budgets :: "(month \<times> monthData) list"
  debtList :: "debt list"
  goals :: "goal list"
  categories :: "(ident \<times> category) list"
  currentMonth :: month
  readyToAssign :: rat

text \<open>The error modals of the handlers, and the other ways a handler ends.\<close>

datatype rejection =
  InvalidInput
  | CategoryRequired
  | InsufficientFunds
  | DueDateNotInFuture
  | NoMonthSelected
  | NoPreviousData
  | AlreadyAssigned

datatype outcome =
  Done
  | Rejected rejection
  | DuplicateWarning
  | Ignored
  | Threw

definition emptyMonth :: monthData where
  "emptyMonth = \<lparr>mcategories = [], transactions = []\<rparr>"

text \<open>
  A new document once the application has started with \<open>m\<close> as the current month
  (\<open>initApp\<close>, lines 1276-1293): the variables hold the empty document, and the first
  \<open>renderUI\<close> has created the ledger of the month on display.
\<close>

definition initialState :: "month \<Rightarrow> state" where
  "initialState m =
     \<lparr>budgets = [(m, emptyMonth)], debtList = [], goals = [], categories = [],
      currentMonth = m, readyToAssign = 0\<rparr>"

text \<open>\<open>getMonthData\<close> (lines 248-256): the ledger of a month, created empty on first access.\<close>

definition getMonthData :: "month \<Rightarrow> state \<Rightarrow> monthData \<times> state" where
  "getMonthData m s =
     (case map_of (budgets s) m of
        None \<Rightarrow> (emptyMonth, s\<lparr>budgets := budgets s @ [(m, emptyMonth)]\<rparr>)
      | Some md \<Rightarrow> (md, s))"

text \<open>
  The handlers mutate the object \<open>getMonthData\<close> returned, which is the one stored in
  \<open>budgets\<close>. \<open>setMonthData\<close> writes the mutated ledger back under its key.
\<close>

definition setMonthData :: "month \<Rightarrow> monthData \<Rightarrow> state \<Rightarrow> state" where
  "setMonthData m md s = s\<lparr>budgets := AList.update m md (budgets s)\<rparr>"

text \<open>
  \<open>renderUI\<close> (lines 322-331) reads the ledger of the month on display, and so creates
  it when it is missing; the tables it fills read the state only.
\<close>

definition renderUI :: "state \<Rightarrow> state" where
  "renderUI s = snd (getMonthData (currentMonth s) s)"

text \<open>\<open>monthData.categories[categoryId]?.assigned || 0\<close>\<close>

definition assignedOr0 :: "monthData \<Rightarrow> ident \<Rightarrow> rat" where
  "assignedOr0 md c = (case map_of (mcategories md) c of None \<Rightarrow> 0 | Some a \<Rightarrow> a)"

text \<open>
  The two writes \<open>if (!md.categories[c]) md.categories[c] = { assigned: 0 }\<close> and
  \<open>md.categories[c].assigned = v\<close>.
\<close>

definition setAssigned :: "ident \<Rightarrow> rat \<Rightarrow> monthData \<Rightarrow> monthData" where
  "setAssigned c v md = md\<lparr>mcategories := AList.update c v (mcategories md)\<rparr>"

definition pushTransaction :: "transaction \<Rightarrow> monthData \<Rightarrow> monthData" where
  "pushTransaction t md = md\<lparr>transactions := transactions md @ [t]\<rparr>"

text \<open>\<open>calculateActivity\<close> and \<open>calculateCategoryAvailable\<close> (lines 294-306).\<close>

definition calculateActivity :: "month \<Rightarrow> ident \<Rightarrow> state \<Rightarrow> rat \<times> state" where
  "calculateActivity m c s =
     (let (md, s1) = getMonthData m s in
        (foldl (\<lambda>sum t. sum + amount t) 0
           (filter (\<lambda>t. categoryId t = Some c \<and> ttype t = Expense) (transactions md)),
         s1))"

definition calculateCategoryAvailable :: "month \<Rightarrow> ident \<Rightarrow> state \<Rightarrow> rat \<times> state" where
  "calculateCategoryAvailable m c s =
     (let (md, s1) = getMonthData m s;
          assigned = assignedOr0 md c;
          (activity, s2) = calculateActivity m c s1
      in (assigned - activity, s2))"

text \<open>
  \<open>updateCategoryAssigned\<close> (lines 384-405), on the month being viewed. \<open>newValue\<close> is
  \<open>parseFloat(value) || 0\<close>.
\<close>

definition updateCategoryAssigned :: "ident \<Rightarrow> rat \<Rightarrow> state \<Rightarrow> outcome \<times> state" where
  "updateCategoryAssigned c newValue s =
     (let (md, s1) = getMonthData (currentMonth s) s;
          oldValue = assignedOr0 md c;
          difference = newValue - oldValue
      in if difference > readyToAssign s1 then (Rejected InsufficientFunds, s1)
         else (Done,
               renderUI
                 ((setMonthData (currentMonth s) (setAssigned c newValue md) s1)
                    \<lparr>readyToAssign := readyToAssign s1 - difference\<rparr>)))"

text \<open>\<open>addPersistentCategory\<close> (lines 259-269); it returns the id it was given.\<close>

definition addPersistentCategory :: "ident \<Rightarrow> date \<Rightarrow> string \<Rightarrow> string \<Rightarrow> state \<Rightarrow> state" where
  "addPersistentCategory newId today name parent s =
     s\<lparr>categories :=
          AList.update newId
            \<lparr>cname = name, parentCategory = parent, createdDate = today, isActive = True\<rparr>
            (categories s)\<rparr>"

text \<open>\<open>handleDeleteCategory\<close> (lines 408-419): a soft delete.\<close>

definition handleDeleteCategory :: "ident \<Rightarrow> bool \<Rightarrow> state \<Rightarrow> outcome \<times> state" where
  "handleDeleteCategory c confirmed s =
     (case map_of (categories s) c of
        None \<Rightarrow> (Ignored, s)
      | Some cat \<Rightarrow>
          if confirmed
          then (Done,
                renderUI
                  (s\<lparr>categories := AList.update c (cat\<lparr>isActive := False\<rparr>) (categories s)\<rparr>))
          else (Ignored, s))"

text \<open>
  The goal form (\<open>saveGoalBtn\<close>, lines 626-676). \<open>name\<close> is the trimmed name field,
  \<open>dueDateIn\<close> the date field (\<open>None\<close> when empty), \<open>totalAmountIn\<close> the result of
  \<open>parseFloat\<close> (\<open>None\<close> for \<open>NaN\<close>). \<open>startOfMonth(new Date())\<close> is the first day of
  today's month, and both dates are local midnights, so \<open>endDate <= startDate\<close> compares
  month and day.
\<close>

definition startOfMonth :: "date \<Rightarrow> date" where
  "startOfMonth d = \<lparr>monthOf = monthOf d, dayOf = 1\<rparr>"

definition dateLe :: "date \<Rightarrow> date \<Rightarrow> bool" where
  "dateLe a b \<longleftrightarrow> monthOf a < monthOf b \<or> (monthOf a = monthOf b \<and> dayOf a \<le> dayOf b)"

definition differenceInCalendarMonths :: "date \<Rightarrow> date \<Rightarrow> int" where
  "differenceInCalendarMonths e b = monthOf e - monthOf b"

text \<open>One turn of the loop of lines 663-671, for the month key \<open>monthKey\<close>.\<close>

definition assignGoalMonth :: "ident \<Rightarrow> rat \<Rightarrow> month \<Rightarrow> state \<Rightarrow> state" where
  "assignGoalMonth c v monthKey s =
     (let (md, s1) = getMonthData monthKey s in setMonthData monthKey (setAssigned c v md) s1)"

text \<open>The loop: \<open>n\<close> turns, for the month keys \<open>start\<close>, \<open>start + 1\<close>, ... in this order.\<close>

fun assignGoalMonths :: "ident \<Rightarrow> rat \<Rightarrow> month \<Rightarrow> nat \<Rightarrow> state \<Rightarrow> state" where
  "assignGoalMonths c v start 0 s = s"
| "assignGoalMonths c v start (Suc n) s =
     assignGoalMonths c v (start + 1) n (assignGoalMonth c v start s)"

definition saveGoal ::
  "ident \<Rightarrow> ident \<Rightarrow> date \<Rightarrow> string \<Rightarrow> string \<Rightarrow> date option \<Rightarrow> rat option \<Rightarrow> state
     \<Rightarrow> outcome \<times> state" where
  "saveGoal goalId newCategoryId today name descr dueDateIn totalAmountIn s =
     (case (dueDateIn, totalAmountIn) of
        (Some due, Some total') \<Rightarrow>
          if name = [] \<or> total' \<le> 0 then (Rejected InvalidInput, s)
          else
            let startDate = startOfMonth today in
            if dateLe due startDate then (Rejected DueDateNotInFuture, s)
            else
              let monthsBetween = differenceInCalendarMonths due startDate + 1;
                  contribution = total' / of_int monthsBetween;
                  newGoal = \<lparr>gid = goalId, gname = name, gdescription = descr, dueDate = due,
                             totalAmount = total', monthlyContribution = contribution\<rparr>;
                  s1 = s\<lparr>goals := goals s @ [newGoal]\<rparr>;
                  s2 = addPersistentCategory newCategoryId today name ''Financial Goals'' s1
              in (Done,
                  renderUI
                    (assignGoalMonths newCategoryId contribution (monthOf startDate)
                       (nat monthsBetween) s2))
      | _ \<Rightarrow> (Rejected InvalidInput, s))"

text \<open>
  Recording a transaction (lines 787-854). \<open>isDuplicateTransaction\<close> reads the ledger of
  \<open>currentMonth\<close>, the month on display.
\<close>

definition sameTransaction :: "transaction \<Rightarrow> transaction \<Rightarrow> bool" where
  "sameTransaction new t \<longleftrightarrow>
     tdate t = tdate new \<and> amount t = amount new \<and> description t = description new"

definition isDuplicateTransaction :: "transaction \<Rightarrow> state \<Rightarrow> bool \<times> state" where
  "isDuplicateTransaction new s =
     (let (md, s1) = getMonthData (currentMonth s) s
      in (list_ex (sameTransaction new) (transactions md), s1))"

definition updateReadyToAssign :: "transaction \<Rightarrow> state \<Rightarrow> state" where
  "updateReadyToAssign t s =
     (if ttype t = Income then s\<lparr>readyToAssign := readyToAssign s + amount t\<rparr> else s)"

text \<open>
  What both the plain path and the callback of \<open>addDuplicateAnywayBtn\<close> do with the new
  transaction: push it on the ledger object of its month, then credit the pool.
\<close>

definition insertTransaction :: "month \<Rightarrow> transaction \<Rightarrow> state \<Rightarrow> state" where
  "insertTransaction m t s =
     (let (md, s1) = getMonthData m s
      in updateReadyToAssign t (setMonthData m (pushTransaction t md) s1))"

text \<open>
  The handler of \<open>recordTransactionBtn\<close>. \<open>categoryIdIn\<close> is the value of the category
  select (the empty string when none is chosen). On \<open>DuplicateWarning\<close> the modal is open
  and nothing was inserted; \<open>addDuplicateAnyway\<close> is the callback of its first button,
  the second button changes nothing.
\<close>

definition recordTransaction ::
  "ident \<Rightarrow> rat option \<Rightarrow> txType \<Rightarrow> date option \<Rightarrow> string \<Rightarrow> string \<Rightarrow> state
     \<Rightarrow> outcome \<times> state" where
  "recordTransaction newId amountIn type dateIn descr categoryIdIn s =
     (case (amountIn, dateIn) of
        (Some amt, Some d) \<Rightarrow>
          if amt \<le> 0 \<or> descr = [] then (Rejected InvalidInput, s)
          else if type = Expense \<and> categoryIdIn = [] then (Rejected CategoryRequired, s)
          else
            let month = monthOf d;
                (md, s1) = getMonthData month s;
                newTransaction =
                  \<lparr>tid = newId, tdate = d, amount = amt, description = descr, ttype = type,
                   categoryId = (if categoryIdIn = [] then None else Some categoryIdIn)\<rparr>;
                (dup, s2) = isDuplicateTransaction newTransaction s1
            in if dup then (DuplicateWarning, s2)
               else (Done, renderUI (insertTransaction month newTransaction s2))
      | _ \<Rightarrow> (Rejected InvalidInput, s))"

definition addDuplicateAnyway :: "month \<Rightarrow> transaction \<Rightarrow> state \<Rightarrow> state" where
  "addDuplicateAnyway m t s = renderUI (insertTransaction m t s)"

text \<open>\<open>Array.prototype.findIndex\<close>, with \<open>None\<close> for \<open>-1\<close>.\<close>

fun findIndex :: "('a \<Rightarrow> bool) \<Rightarrow> 'a list \<Rightarrow> nat option" where
  "findIndex P [] = None"
| "findIndex P (x # xs) =
     (if P x then Some 0 else (case findIndex P xs of None \<Rightarrow> None | Some i \<Rightarrow> Some (Suc i)))"

text \<open>\<open>xs.splice(i, 1)\<close>\<close>

definition splice1 :: "nat \<Rightarrow> 'a list \<Rightarrow> 'a list" where
  "splice1 i xs = take i xs @ drop (Suc i) xs"

text \<open>
  The scan \<open>for (const monthKey in budgets)\<close> of the edit handler: the first month key,
  in the order of the object, whose ledger holds a transaction of the id, and the index
  of that transaction.
\<close>

fun findTransaction ::
  "ident \<Rightarrow> (month \<times> monthData) list \<Rightarrow> month list \<Rightarrow> (month \<times> nat) option" where
  "findTransaction i b [] = None"
| "findTransaction i b (k # ks) =
     (case map_of b k of
        None \<Rightarrow> findTransaction i b ks
      | Some md \<Rightarrow>
          (case findIndex (\<lambda>t. tid t = i) (transactions md) of
             None \<Rightarrow> findTransaction i b ks
           | Some n \<Rightarrow> Some (k, n)))"

text \<open>
  The handler of \<open>saveEditedTransactionBtn\<close> (lines 897-955), for the transaction id held
  in \<open>editingHistoricalTransactionId\<close>.
\<close>

definition editedTransaction ::
  "transaction \<Rightarrow> date \<Rightarrow> rat \<Rightarrow> txType \<Rightarrow> string \<Rightarrow> string \<Rightarrow> transaction" where
  "editedTransaction old newDate newAmount newType newDescription newCategoryIdIn =
     old\<lparr>tdate := newDate, amount := newAmount, ttype := newType,
         description := newDescription,
         categoryId := (if newCategoryIdIn = [] then None else Some newCategoryIdIn)\<rparr>"

definition saveEditedTransaction ::
  "ident \<Rightarrow> date option \<Rightarrow> rat option \<Rightarrow> txType \<Rightarrow> string \<Rightarrow> string \<Rightarrow> state
     \<Rightarrow> outcome \<times> state" where
  "saveEditedTransaction editingId newDateIn newAmountIn newType newDescription newCategoryIdIn s =
     (case (newAmountIn, newDateIn) of
        (Some newAmount, Some newDate) \<Rightarrow>
          if newAmount \<le> 0 \<or> newDescription = [] then (Rejected InvalidInput, s)
          else if newType = Expense \<and> newCategoryIdIn = [] then (Rejected CategoryRequired, s)
          else
            (case findTransaction editingId (budgets s) (map fst (budgets s)) of
               None \<Rightarrow> (Done, renderUI s)
             | Some (oldMonth, transactionIndex) \<Rightarrow>
                 let md = (case map_of (budgets s) oldMonth of Some x \<Rightarrow> x | None \<Rightarrow> emptyMonth);
                     oldTransaction = transactions md ! transactionIndex;
                     updatedTransaction =
                       editedTransaction oldTransaction newDate newAmount newType newDescription
                         newCategoryIdIn;
                     newMonth = monthOf newDate;
                     s1 =
                       (if newMonth \<noteq> oldMonth
                        then
                          let sa =
                                setMonthData oldMonth
                                  (md\<lparr>transactions := splice1 transactionIndex (transactions md)\<rparr>)
                                  s;
                              (newMd, sb) = getMonthData newMonth sa
                          in setMonthData newMonth (pushTransaction updatedTransaction newMd) sb
                        else
                          setMonthData oldMonth
                            (md\<lparr>transactions :=
                                  (transactions md)[transactionIndex := updatedTransaction]\<rparr>)
                            s);
                     s2 =
                       (if ttype oldTransaction = Income
                        then s1\<lparr>readyToAssign := readyToAssign s1 - amount oldTransaction\<rparr>
                        else s1);
                     s3 =
                       (if newType = Income
                        then s2\<lparr>readyToAssign := readyToAssign s2 + newAmount\<rparr>
                        else s2)
                 in (Done, renderUI s3))
      | _ \<Rightarrow> (Rejected InvalidInput, s))"

text \<open>
  \<open>handleDeleteTransaction\<close> (lines 1128-1142). \<open>budgets[month]\<close> of a month without a
  ledger is \<open>undefined\<close>, and reading its \<open>transactions\<close> throws.
\<close>

definition handleDeleteTransaction :: "ident \<Rightarrow> month \<Rightarrow> bool \<Rightarrow> state \<Rightarrow> outcome \<times> state" where
  "handleDeleteTransaction transactionId m confirmed s =
     (if \<not> confirmed then (Ignored, s)
      else
        (case map_of (budgets s) m of
           None \<Rightarrow> (Threw, s)
         | Some md \<Rightarrow>
             (case findIndex (\<lambda>t. tid t = transactionId) (transactions md) of
                None \<Rightarrow> (Ignored, s)
              | Some transactionIndex \<Rightarrow>
                  let t = transactions md ! transactionIndex;
                      s1 =
                        (if ttype t = Income
                         then s\<lparr>readyToAssign := readyToAssign s - amount t\<rparr>
                         else s)
                  in (Done,
                      renderUI
                        (setMonthData m
                           (md\<lparr>transactions := splice1 transactionIndex (transactions md)\<rparr>)
                           s1)))))"

text \<open>
  Recording a debt payment (\<open>recordPaymentConfirmBtn\<close>, lines 1074-1118), for the debt id
  held in \<open>selectedDebtId\<close>. The ledger written to is the one of \<open>currentMonth\<close>; the date
  of the payment and of the transaction is today's.
\<close>

definition payDebt :: "date \<Rightarrow> rat \<Rightarrow> debt \<Rightarrow> debt" where
  "payDebt today amt d =
     d\<lparr>currentBalance := (if currentBalance d - amt < 0 then 0 else currentBalance d - amt),
       paymentHistory := paymentHistory d @ [\<lparr>pdate = today, pamount = amt\<rparr>]\<rparr>"

text \<open>\<open>Object.values(categories).find(cat => cat.name === 'Debt Payments' && cat.isActive)\<close>\<close>

definition findDebtPaymentCategory :: "(ident \<times> category) list \<Rightarrow> ident option" where
  "findDebtPaymentCategory cats =
     map_option fst (find (\<lambda>kc. cname (snd kc) = ''Debt Payments'' \<and> isActive (snd kc)) cats)"

definition recordPayment ::
  "ident \<Rightarrow> ident \<Rightarrow> date \<Rightarrow> ident \<Rightarrow> rat option \<Rightarrow> state \<Rightarrow> outcome \<times> state" where
  "recordPayment newCategoryId newTransactionId today selectedDebtId amountIn s =
     (case amountIn of
        None \<Rightarrow> (Rejected InvalidInput, s)
      | Some amt \<Rightarrow>
          if amt \<le> 0 then (Rejected InvalidInput, s)
          else if amt > readyToAssign s then (Rejected InsufficientFunds, s)
          else
            (case findIndex (\<lambda>d. did d = selectedDebtId) (debtList s) of
               None \<Rightarrow> (Ignored, s)
             | Some i \<Rightarrow>
                 let d = debtList s ! i;
                     s1 = s\<lparr>debtList := (debtList s)[i := payDebt today amt d]\<rparr>;
                     (debtPaymentCategory, s2) =
                       (case findDebtPaymentCategory (categories s1) of
                          Some k \<Rightarrow> (k, s1)
                        | None \<Rightarrow>
                            (newCategoryId,
                             addPersistentCategory newCategoryId today ''Debt Payments''
                               ''Fixed Expenses'' s1));
                     (md, s3) = getMonthData (currentMonth s) s2;
                     t = \<lparr>tid = newTransactionId, tdate = today, amount = amt,
                          description = ''Payment to '' @ dname d, ttype = Expense,
                          categoryId = Some debtPaymentCategory\<rparr>;
                     s4 = setMonthData (currentMonth s) (pushTransaction t md) s3
                 in (Done, renderUI (s4\<lparr>readyToAssign := readyToAssign s4 - amt\<rparr>))))"

text \<open>
  Copying the categories to the next month (\<open>copyCategoriesBtn\<close>, lines 1156-1178). The
  loop runs over \<open>Object.values(categories)\<close> and carries the \<open>categories\<close> object of
  the next month's ledger and the counter \<open>categoriesCopied\<close>; the handler reports the
  counter.
\<close>

fun copyLoop ::
  "(ident \<times> category) list \<Rightarrow> (ident \<times> rat) list \<Rightarrow> nat \<Rightarrow> (ident \<times> rat) list \<times> nat" where
  "copyLoop [] nextCats n = (nextCats, n)"
| "copyLoop (kc # cs) nextCats n =
     (if isActive (snd kc) \<and> map_of nextCats (fst kc) = None
      then copyLoop cs (AList.update (fst kc) 0 nextCats) (Suc n)
      else copyLoop cs nextCats n)"

definition copyCategories :: "state \<Rightarrow> nat \<times> state" where
  "copyCategories s =
     (let nextMonth = currentMonth s + 1;
          (currentMonthData, s1) = getMonthData (currentMonth s) s;
          (nextMonthData, s2) = getMonthData nextMonth s1;
          (nextCats, categoriesCopied) = copyLoop (categories s2) (mcategories nextMonthData) 0;
          s3 = setMonthData nextMonth (nextMonthData\<lparr>mcategories := nextCats\<rparr>) s2
      in (categoriesCopied, if categoriesCopied > 0 then renderUI s3 else s3))"

text \<open>
  The two other handlers that move money from the pool into a category: the callback of
  \<open>assignFundsBtn\<close> (lines 704-730) and \<open>handleQuickBudget\<close> (lines 1181-1214).
\<close>

definition assignFunds :: "ident \<Rightarrow> rat option \<Rightarrow> month option \<Rightarrow> state \<Rightarrow> outcome \<times> state" where
  "assignFunds c amountIn assignToMonth s =
     (case amountIn of
        None \<Rightarrow> (Rejected InvalidInput, s)
      | Some amt \<Rightarrow>
          if amt \<le> 0 then (Rejected InvalidInput, s)
          else if amt > readyToAssign s then (Rejected InsufficientFunds, s)
          else
            (case assignToMonth of
               None \<Rightarrow> (Rejected NoMonthSelected, s)
             | Some m \<Rightarrow>
                 let (md, s1) = getMonthData m s;
                     s2 = setMonthData m (setAssigned c (assignedOr0 md c + amt) md) s1
                 in (Done, renderUI (s2\<lparr>readyToAssign := readyToAssign s2 - amt\<rparr>))))"

definition handleQuickBudget :: "ident \<Rightarrow> state \<Rightarrow> outcome \<times> state" where
  "handleQuickBudget c s =
     (let previousMonth = currentMonth s - 1;
          previousMonthData = map_of (budgets s) previousMonth;
          (md, s1) = getMonthData (currentMonth s) s
      in case previousMonthData of
           None \<Rightarrow> (Rejected NoPreviousData, s1)
         | Some prev \<Rightarrow>
             (case map_of (mcategories prev) c of
                None \<Rightarrow> (Rejected NoPreviousData, s1)
              | Some previousAssignedAmount \<Rightarrow>
                  let currentAssignedAmount = assignedOr0 md c;
                      amountToAssign = previousAssignedAmount - currentAssignedAmount
                  in if amountToAssign \<le> 0 then (Rejected AlreadyAssigned, s1)
                     else if readyToAssign s1 < amountToAssign
                     then (Rejected InsufficientFunds, s1)
                     else
                       let s2 =
                             setMonthData (currentMonth s)
                               (setAssigned c (currentAssignedAmount + amountToAssign) md) s1
                       in (Done,
                           renderUI (s2\<lparr>readyToAssign := readyToAssign s2 - amountToAssign\<rparr>))))"

text \<open>The month buttons (lines 1145-1153): \<open>subMonths\<close> and \<open>addMonths\<close> by one, then a render.\<close>

definition prevMonthBtn :: "state \<Rightarrow> state" where
  "prevMonthBtn s = renderUI (s\<lparr>currentMonth := currentMonth s - 1\<rparr>)"

definition nextMonthBtn :: "state \<Rightarrow> state" where
  "nextMonthBtn s = renderUI (s\<lparr>currentMonth := currentMonth s + 1\<rparr>)"

section \<open>The budget object with cached figures\<close>

text \<open>
  The third variant of the file (from line 1949) keeps \<open>activity\<close> and \<open>available\<close> as
  fields of each category of a month and updates them whenever a transaction is added,
  edited or deleted (the \<open>budget\<close> object, lines 2183-2353). Its transactions have no
  type: an amount is a signed number, parsed by \<open>parseAmount\<close> from the text of the form.
  All operations work on the budget of \<open>state.currentMonth\<close>.

  In the model the amount field is \<open>None\<close> when the text is blank (\<open>validateInput\<close> then
  throws) and \<open>Some\<close> of the number \<open>parseAmount\<close> returns otherwise. The \<open>id\<close> property of a
  category repeats its key. \<open>state.debtList\<close> and \<open>state.goals\<close> are not touched by the
  \<open>budget\<close> object and are left out of the state; \<open>dataManager.save\<close> and the \<open>ui\<close>
  updates change no state.
\<close>

record cachedCategory =
  c_name :: string
  c_budgeted :: rat
  c_activity :: rat
  c_available :: rat

record cachedTransaction =
  t_id :: ident
  t_categoryId :: ident
  t_description :: string
  t_amount :: rat
  t_date :: string

record monthBudget =
  b_categories :: "(ident \<times> cachedCategory) list"
  b_transactions :: "cachedTransaction list"

record budgetState =
  s_budgets :: "(month \<times> monthBudget) list"
  s_categories :: "(ident \<times> string) list"
  s_currentMonth :: month
  s_readyToAssign :: rat

datatype budgetError =
  FieldRequired
  | CategoryNotFound
  | TransactionNotFound
  | CaughtTypeError

datatype budgetOutcome =
  Ok
  | Failed budgetError
  | Returned
  | Uncaught

datatype categoryField = BudgetedField | ActivityField | AvailableField

text \<open>\<open>String.prototype.trim\<close>, for the ASCII white space.\<close>

definition isSpace :: "char \<Rightarrow> bool" where
  "isSpace ch \<longleftrightarrow>
     ch = CHR '' '' \<or> ch = CHR 0x09 \<or> ch = CHR 0x0A \<or> ch = CHR 0x0B \<or> ch = CHR 0x0C \<or>
     ch = CHR 0x0D"

definition trim :: "string \<Rightarrow> string" where
  "trim str = rev (dropWhile isSpace (rev (dropWhile isSpace str)))"

text \<open>\<open>validateInput(value, 'string')\<close> throws when this holds.\<close>

definition blank :: "string \<Rightarrow> bool" where
  "blank str \<longleftrightarrow> str = [] \<or> trim str = []"

text \<open>
  \<open>getCurrentBudget\<close> (lines 2184-2186). For a month without a budget the object it
  returns is a fresh one that is not stored, so what is written to it is lost:
  \<open>putCurrentBudget\<close> is the write through the reference.
\<close>

definition getCurrentBudget :: "budgetState \<Rightarrow> monthBudget" where
  "getCurrentBudget s =
     (case map_of (s_budgets s) (s_currentMonth s) of
        None \<Rightarrow> \<lparr>b_categories = [], b_transactions = []\<rparr>
      | Some b \<Rightarrow> b)"

definition putCurrentBudget :: "monthBudget \<Rightarrow> budgetState \<Rightarrow> budgetState" where
  "putCurrentBudget b s =
     (case map_of (s_budgets s) (s_currentMonth s) of
        None \<Rightarrow> s
      | Some old \<Rightarrow> s\<lparr>s_budgets := AList.update (s_currentMonth s) b (s_budgets s)\<rparr>)"

text \<open>\<open>category.available = category.budgeted + category.activity\<close>\<close>

definition refreshAvailable :: "cachedCategory \<Rightarrow> cachedCategory" where
  "refreshAvailable cat = cat\<lparr>c_available := c_budgeted cat + c_activity cat\<rparr>"

text \<open>\<open>budget.addTransaction\<close> (lines 2264-2293); \<open>now\<close> is \<open>new Date().toISOString()\<close>.\<close>

definition addTransaction ::
  "ident \<Rightarrow> string \<Rightarrow> ident \<Rightarrow> string \<Rightarrow> rat option \<Rightarrow> budgetState
     \<Rightarrow> budgetOutcome \<times> budgetState" where
  "addTransaction newId now catId descr amountIn s =
     (if blank descr then (Failed FieldRequired, s)
      else
        (case amountIn of
           None \<Rightarrow> (Failed FieldRequired, s)
         | Some amt \<Rightarrow>
             let budget = getCurrentBudget s in
             (case map_of (b_categories budget) catId of
                None \<Rightarrow> (Failed CategoryNotFound, s)
              | Some category \<Rightarrow>
                  let transaction =
                        \<lparr>t_id = newId, t_categoryId = catId, t_description = trim descr,
                         t_amount = amt, t_date = now\<rparr>;
                      category1 = category\<lparr>c_activity := c_activity category + amt\<rparr>
                  in (Ok,
                      putCurrentBudget
                        (budget\<lparr>b_transactions := b_transactions budget @ [transaction],
                           b_categories :=
                             AList.update catId (refreshAvailable category1)
                               (b_categories budget)\<rparr>)
                        s))))"

text \<open>
  \<open>budget.editTransaction\<close> (lines 2295-2320). When the category of the transaction is
  gone, \<open>category.activity -= ...\<close> throws before anything is written, and the \<open>catch\<close>
  shows the message.
\<close>

definition editTransaction ::
  "ident \<Rightarrow> string \<Rightarrow> rat option \<Rightarrow> budgetState \<Rightarrow> budgetOutcome \<times> budgetState" where
  "editTransaction transactionId descr amountIn s =
     (if blank descr then (Failed FieldRequired, s)
      else
        (case amountIn of
           None \<Rightarrow> (Failed FieldRequired, s)
         | Some amt \<Rightarrow>
             let budget = getCurrentBudget s in
             (case findIndex (\<lambda>t. t_id t = transactionId) (b_transactions budget) of
                None \<Rightarrow> (Failed TransactionNotFound, s)
              | Some i \<Rightarrow>
                  let transaction = b_transactions budget ! i in
                  (case map_of (b_categories budget) (t_categoryId transaction) of
                     None \<Rightarrow> (Failed CaughtTypeError, s)
                   | Some category \<Rightarrow>
                       let category1 =
                             category\<lparr>c_activity := c_activity category - t_amount transaction\<rparr>;
                           transaction1 =
                             transaction\<lparr>t_amount := amt, t_description := trim descr\<rparr>;
                           category2 =
                             category1\<lparr>c_activity := c_activity category1 + t_amount transaction1\<rparr>
                       in (Ok,
                           putCurrentBudget
                             (budget\<lparr>b_transactions := (b_transactions budget)[i := transaction1],
                                b_categories :=
                                  AList.update (t_categoryId transaction)
                                    (refreshAvailable category2) (b_categories budget)\<rparr>)
                             s)))))"

text \<open>
  \<open>budget.deleteTransaction\<close> (lines 2322-2340). It has no \<open>try\<close>: a transaction whose
  category is gone makes it throw, before anything is written.
\<close>

definition deleteTransaction ::
  "ident \<Rightarrow> bool \<Rightarrow> budgetState \<Rightarrow> budgetOutcome \<times> budgetState" where
  "deleteTransaction transactionId confirmed s =
     (if \<not> confirmed then (Returned, s)
      else
        let budget = getCurrentBudget s in
        (case findIndex (\<lambda>t. t_id t = transactionId) (b_transactions budget) of
           None \<Rightarrow> (Returned, s)
         | Some transactionIndex \<Rightarrow>
             let transaction = b_transactions budget ! transactionIndex in
             (case map_of (b_categories budget) (t_categoryId transaction) of
                None \<Rightarrow> (Uncaught, s)
              | Some category \<Rightarrow>
                  let category1 =
                        category\<lparr>c_activity := c_activity category - t_amount transaction\<rparr>
                  in (Ok,
                      putCurrentBudget
                        (budget\<lparr>b_transactions := splice1 transactionIndex (b_transactions budget),
                           b_categories :=
                             AList.update (t_categoryId transaction) (refreshAvailable category1)
                               (b_categories budget)\<rparr>)
                        s))))"

text \<open>
  \<open>budget.updateCategory\<close> (lines 2216-2240), for the three numeric fields. The budget
  table calls it with \<open>'budgeted'\<close>.
\<close>

definition updateCategory ::
  "ident \<Rightarrow> categoryField \<Rightarrow> rat option \<Rightarrow> budgetState \<Rightarrow> budgetOutcome \<times> budgetState" where
  "updateCategory catId field valueIn s =
     (case valueIn of
        None \<Rightarrow> (Failed FieldRequired, s)
      | Some v \<Rightarrow>
          let budget = getCurrentBudget s in
          (case map_of (b_categories budget) catId of
             None \<Rightarrow> (Failed CategoryNotFound, s)
           | Some category \<Rightarrow>
               (case field of
                  BudgetedField \<Rightarrow>
                    let oldValue = c_budgeted category;
                        category1 = category\<lparr>c_budgeted := v\<rparr>;
                        difference = c_budgeted category1 - oldValue;
                        s1 = s\<lparr>s_readyToAssign := s_readyToAssign s - difference\<rparr>
                    in (Ok,
                        putCurrentBudget
                          (budget\<lparr>b_categories :=
                               AList.update catId (refreshAvailable category1)
                                 (b_categories budget)\<rparr>)
                          s1)
                | ActivityField \<Rightarrow>
                    (Ok,
                     putCurrentBudget
                       (budget\<lparr>b_categories :=
                            AList.update catId (category\<lparr>c_activity := v\<rparr>)
                              (b_categories budget)\<rparr>)
                       s)
                | AvailableField \<Rightarrow>
                    (Ok,
                     putCurrentBudget
                       (budget\<lparr>b_categories :=
                            AList.update catId (category\<lparr>c_available := v\<rparr>)
                              (b_categories budget)\<rparr>)
                       s))))"

section \<open>Reading the state\<close>

text \<open>
  What the properties below speak about, read off a state without changing it. \<open>ledger s m\<close> is
  \<open>budgets[m]\<close>, or the empty ledger \<open>getMonthData\<close> would create for a month that has
  none; \<open>allocation\<close> is the entry of a category in it, \<open>budgeted\<close> its assigned amount
  (0 without an entry).
\<close>

definition ledger :: "state \<Rightarrow> month \<Rightarrow> monthData" where
  "ledger s m = (case map_of (budgets s) m of None \<Rightarrow> emptyMonth | Some md \<Rightarrow> md)"

definition allocation :: "state \<Rightarrow> month \<Rightarrow> ident \<Rightarrow> rat option" where
  "allocation s m c = map_of (mcategories (ledger s m)) c"

definition budgeted :: "state \<Rightarrow> month \<Rightarrow> ident \<Rightarrow> rat" where
  "budgeted s m c = assignedOr0 (ledger s m) c"

text \<open>
  The specification's \<open>setAllocation(month, categoryId, newBudgeted)\<close>: the assigned
  field of the budget table is edited while \<open>month\<close> is the month on display.
\<close>

definition setAllocation :: "month \<Rightarrow> ident \<Rightarrow> rat \<Rightarrow> state \<Rightarrow> outcome \<times> state" where
  "setAllocation m c newBudgeted s =
     updateCategoryAssigned c newBudgeted (s\<lparr>currentMonth := m\<rparr>)"

text \<open>
  A sequence of such calls, run from left to right. It returns the deltas of the calls
  that were applied, in order, and the final state.
\<close>

fun setAllocations :: "(month \<times> ident \<times> rat) list \<Rightarrow> state \<Rightarrow> rat list \<times> state" where
  "setAllocations [] s = ([], s)"
| "setAllocations ((m, c, v) # calls) s =
     (let delta = v - budgeted s m c;
          (r, s1) = setAllocation m c v s;
          (deltas, s2) = setAllocations calls s1
      in (if r = Done then delta # deltas else deltas, s2))"

text \<open>A document with 100 in the pool and nothing else, for the examples.\<close>

definition poolOf100 :: state where
  "poolOf100 = (initialState 0)\<lparr>readyToAssign := 100\<rparr>"

text \<open>
  The transaction a debt payment records, and the category it creates when no active
  category is named \<open>Debt Payments\<close>.
\<close>

definition paymentTransaction :: "ident \<Rightarrow> date \<Rightarrow> rat \<Rightarrow> debt \<Rightarrow> ident \<Rightarrow> transaction" where
  "paymentTransaction newId today amt d c =
     \<lparr>tid = newId, tdate = today, amount = amt, description = ''Payment to '' @ dname d,
      ttype = Expense, categoryId = Some c\<rparr>"

definition debtPaymentsCategory :: "date \<Rightarrow> category" where
  "debtPaymentsCategory today =
     \<lparr>cname = ''Debt Payments'', parentCategory = ''Fixed Expenses'', createdDate = today,
      isActive = True\<rparr>"

text \<open>
  A run of clicks on the confirm button of the payment form, each with its own fresh ids,
  date, selected debt and amount field, whatever their outcome.
\<close>

type_synonym paymentClick = "ident \<times> ident \<times> date \<times> ident \<times> rat option"

fun recordPayments :: "paymentClick list \<Rightarrow> state \<Rightarrow> state" where
  "recordPayments [] s = s"
| "recordPayments ((newCategoryId, newTransactionId, today, selectedDebtId, amountIn) # clicks) s =
     recordPayments clicks
       (snd (recordPayment newCategoryId newTransactionId today selectedDebtId amountIn s))"

text \<open>The goal record and the backing category that the goal form creates.\<close>

definition newGoal :: "ident \<Rightarrow> string \<Rightarrow> string \<Rightarrow> date \<Rightarrow> rat \<Rightarrow> int \<Rightarrow> goal" where
  "newGoal goalId name descr due total' monthsBetween =
     \<lparr>gid = goalId, gname = name, gdescription = descr, dueDate = due, totalAmount = total',
      monthlyContribution = total' / of_int monthsBetween\<rparr>"

definition goalCategory :: "string \<Rightarrow> date \<Rightarrow> category" where
  "goalCategory name today =
     \<lparr>cname = name, parentCategory = ''Financial Goals'', createdDate = today, isActive = True\<rparr>"

text \<open>A category id that \<open>Object.values(categories)\<close> lists with \<open>isActive\<close> set.\<close>

definition activeCategory :: "state \<Rightarrow> ident \<Rightarrow> bool" where
  "activeCategory s k \<longleftrightarrow> (\<exists>c. (k, c) \<in> set (categories s) \<and> isActive c)"

text \<open>
  The terms of the pool equation: the income recorded in all ledgers, the amounts
  assigned in all ledgers, and the payments in the histories of the debts. No handler
  of this variant refunds an assigned amount when a category is deleted
  (\<open>handleDeleteCategory\<close> only clears \<open>isActive\<close>), so the refund term of the equation
  is 0 and is left out.
\<close>

definition incomePart :: "transaction \<Rightarrow> rat" where
  "incomePart t = (if ttype t = Income then amount t else 0)"

definition incomeOf :: "monthData \<Rightarrow> rat" where
  "incomeOf md = sum_list (map amount (filter (\<lambda>t. ttype t = Income) (transactions md)))"

definition assignedSum :: "monthData \<Rightarrow> rat" where
  "assignedSum md = sum_list (map snd (mcategories md))"

definition incomeTotal :: "state \<Rightarrow> rat" where
  "incomeTotal s = sum_list (map (\<lambda>kv. incomeOf (snd kv)) (budgets s))"

definition budgetedTotal :: "state \<Rightarrow> rat" where
  "budgetedTotal s = sum_list (map (\<lambda>kv. assignedSum (snd kv)) (budgets s))"

definition paidOf :: "debt \<Rightarrow> rat" where
  "paidOf d = sum_list (map pamount (paymentHistory d))"

definition paymentsTotal :: "state \<Rightarrow> rat" where
  "paymentsTotal s = sum_list (map paidOf (debtList s))"

definition poolInvariant :: "state \<Rightarrow> bool" where
  "poolInvariant s \<longleftrightarrow> readyToAssign s = incomeTotal s - budgetedTotal s - paymentsTotal s"

text \<open>
  The activity of a category in a month, in the words of the specification: the sum of
  the amounts of the expense transactions of that month with that category id.
\<close>

definition activity :: "state \<Rightarrow> month \<Rightarrow> ident \<Rightarrow> rat" where
  "activity s m c =
     sum_list (map amount
       (filter (\<lambda>t. ttype t = Expense \<and> categoryId t = Some c) (transactions (ledger s m))))"

text \<open>
  For the budget object with cached figures: the category of the month on display, the
  signed sum of the amounts of a category's transactions in a month's budget, and the
  statement that the cached figures of every category of every month agree with its
  transactions, \<open>activity\<close> being that sum and \<open>available\<close> being
  \<open>budgeted + activity\<close>.
\<close>

definition cachedCategoryOf :: "budgetState \<Rightarrow> ident \<Rightarrow> cachedCategory option" where
  "cachedCategoryOf s k = map_of (b_categories (getCurrentBudget s)) k"

definition part :: "ident \<Rightarrow> cachedTransaction \<Rightarrow> rat" where
  "part k t = (if t_categoryId t = k then t_amount t else 0)"

definition signedSum :: "monthBudget \<Rightarrow> ident \<Rightarrow> rat" where
  "signedSum b k =
     sum_list (map t_amount (filter (\<lambda>t. t_categoryId t = k) (b_transactions b)))"

definition consistentBudget :: "monthBudget \<Rightarrow> bool" where
  "consistentBudget b \<longleftrightarrow>
     (\<forall>k cat. map_of (b_categories b) k = Some cat \<longrightarrow>
        c_activity cat = signedSum b k \<and> c_available cat = c_budgeted cat + c_activity cat)"

definition consistent :: "budgetState \<Rightarrow> bool" where
  "consistent s \<longleftrightarrow> (\<forall>m b. map_of (s_budgets s) m = Some b \<longrightarrow> consistentBudget b)"

section \<open>Example documents\<close>

text \<open>
  Income of 100 is recorded in a new document, all of it is assigned to a category,
  and the income is deleted again.
\<close>

definition day5 :: date where
  "day5 = \<lparr>monthOf = 0, dayOf = 5\<rparr>"

definition afterIncome :: state where
  "afterIncome = snd (recordTransaction ''t1'' (Some 100) Income (Some day5) ''salary'' [] (initialState 0))"

definition afterAllocation :: state where
  "afterAllocation = snd (setAllocation 0 ''rent'' 100 afterIncome)"

definition afterDeletion :: state where
  "afterDeletion = snd (handleDeleteTransaction ''t1'' 0 True afterAllocation)"

definition salary :: transaction where
  "salary = \<lparr>tid = ''t1'', tdate = day5, amount = 100, description = ''salary'',
     ttype = Income, categoryId = None\<rparr>"

definition rentPaid :: transaction where
  "rentPaid = \<lparr>tid = ''t2'', tdate = day5, amount = 40, description = ''rent'',
     ttype = Expense, categoryId = Some ''rent''\<rparr>"

definition twoTransactions :: state where
  "twoTransactions =
     (initialState 0)\<lparr>budgets := [(0, \<lparr>mcategories = [(''rent'', 70)],
        transactions = [salary, rentPaid]\<rparr>)], readyToAssign := 30\<rparr>"

definition day3next :: date where
  "day3next = \<lparr>monthOf = 1, dayOf = 3\<rparr>"

text \<open>A document with one debt and 200 in the pool, and the same after a payment of 100.\<close>

definition cardDebt :: debt where
  "cardDebt = \<lparr>did = ''d1'', dname = ''card'', originalBalance = 500, currentBalance = 80,
     interestRate = 20, minPayment = 25, paymentHistory = []\<rparr>"

definition withDebt :: state where
  "withDebt = (initialState 0)\<lparr>debtList := [cardDebt], readyToAssign := 200\<rparr>"

definition afterPayment :: state where
  "afterPayment = snd (recordPayment ''c1'' ''p1'' day5 ''d1'' (Some 100) withDebt)"

text \<open>
  The category that this payment created is then deleted (which only deactivates it), and a
  second payment of 50 is made.
\<close>

definition afterCategoryDeleted :: state where
  "afterCategoryDeleted = snd (handleDeleteCategory ''c1'' True afterPayment)"

definition afterSecondPayment :: state where
  "afterSecondPayment =
     snd (recordPayment ''c2'' ''p2'' day5 ''d1'' (Some 50) afterCategoryDeleted)"

text \<open>
  The same document with month 2 on display, after two clicks on the next-month button,
  and a payment of 100 made there on day 5 of month 0.
\<close>

definition laterMonthOnDisplay :: state where
  "laterMonthOnDisplay = nextMonthBtn (nextMonthBtn withDebt)"

definition paidWithLaterMonthOnDisplay :: state where
  "paidWithLaterMonthOnDisplay =
     snd (recordPayment ''c1'' ''p1'' day5 ''d1'' (Some 100) laterMonthOnDisplay)"

text \<open>
  A goal of 1200 created on day 5 of month 0 and due in month 11, in a new document.
\<close>

definition dueInDecember :: date where
  "dueInDecember = \<lparr>monthOf = 11, dayOf = 15\<rparr>"

definition afterGoal :: state where
  "afterGoal =
     snd (saveGoal ''g1'' ''c9'' day5 ''holiday'' ''two weeks'' (Some dueInDecember) (Some 1200)
            (initialState 0))"

text \<open>
  Month 0 on display, two active categories and an inactive one, and a ledger for month
  1 that already holds an allocation for the first category.
\<close>

definition threeCategories :: state where
  "threeCategories =
     (initialState 0)\<lparr>
        budgets :=
          [(0, emptyMonth),
           (1, \<lparr>mcategories = [(''rent'', 70)], transactions = [rentPaid]\<rparr>)],
        categories :=
          [(''rent'', \<lparr>cname = ''Rent'', parentCategory = [], createdDate = day5, isActive = True\<rparr>),
           (''food'', \<lparr>cname = ''Food'', parentCategory = [], createdDate = day5, isActive = True\<rparr>),
           (''old'', \<lparr>cname = ''Old'', parentCategory = [], createdDate = day5, isActive = False\<rparr>)],
        readyToAssign := 30\<rparr>"

text \<open>
  February (month 1) is on display in a new document and a rent payment dated
  10 February is recorded; then the user steps back to January.
\<close>

definition feb10 :: date where
  "feb10 = \<lparr>monthOf = 1, dayOf = 10\<rparr>"

definition rentOf :: "ident \<Rightarrow> transaction" where
  "rentOf i = \<lparr>tid = i, tdate = feb10, amount = 50, description = ''rent'', ttype = Expense,
     categoryId = Some ''c1''\<rparr>"

definition afterFirstRent :: state where
  "afterFirstRent =
     snd (recordTransaction ''t1'' (Some 50) Expense (Some feb10) ''rent'' ''c1'' (initialState 1))"

definition backInJanuary :: state where
  "backInJanuary = prevMonthBtn afterFirstRent"

text \<open>
  The budget object with one category, 100 budgeted and nothing spent, and the same
  after a transaction of 50 is added to the category.
\<close>

definition foodBudget :: budgetState where
  "foodBudget =
     \<lparr>s_budgets =
        [(0, \<lparr>b_categories =
                [(''c1'', \<lparr>c_name = ''Food'', c_budgeted = 100, c_activity = 0,
                           c_available = 100\<rparr>)],
              b_transactions = []\<rparr>)],
      s_categories = [(''c1'', ''Food'')], s_currentMonth = 0, s_readyToAssign = - 100\<rparr>"

definition afterSpend :: budgetState where
  "afterSpend = snd (addTransaction ''x1'' ''2024-01-05T10:00:00.000Z'' ''c1'' ''lunch'' (Some 50) foodBudget)"

section \<open>Basic facts about ledgers\<close>

lemma getMonthData_fst: "fst (getMonthData m s) = ledger s m"
  by (simp add: getMonthData_def ledger_def split: option.splits)

lemma getMonthData_ledger: "ledger (snd (getMonthData m s)) m' = ledger s m'"
  by (auto simp add: getMonthData_def ledger_def map_of_append emptyMonth_def split: option.splits if_splits)

lemma getMonthData_present:
  "map_of (budgets s) m \<noteq> None \<Longrightarrow> snd (getMonthData m s) = s"
  by (auto simp add: getMonthData_def)

lemma getMonthData_frame:
  "readyToAssign (snd (getMonthData m s)) = readyToAssign s"
  "debtList (snd (getMonthData m s)) = debtList s"
  "goals (snd (getMonthData m s)) = goals s"
  "categories (snd (getMonthData m s)) = categories s"
  "currentMonth (snd (getMonthData m s)) = currentMonth s"
  by (simp_all add: getMonthData_def split: option.splits)

lemma setMonthData_ledger:
  "ledger (setMonthData m md s) m' = (if m' = m then md else ledger s m')"
  by (simp add: setMonthData_def ledger_def update_conv')

lemma setMonthData_frame:
  "readyToAssign (setMonthData m md s) = readyToAssign s"
  "debtList (setMonthData m md s) = debtList s"
  "goals (setMonthData m md s) = goals s"
  "categories (setMonthData m md s) = categories s"
  "currentMonth (setMonthData m md s) = currentMonth s"
  by (simp_all add: setMonthData_def)

lemma renderUI_ledger: "ledger (renderUI s) m = ledger s m"
  by (simp add: renderUI_def getMonthData_ledger)

lemma renderUI_frame:
  "readyToAssign (renderUI s) = readyToAssign s"
  "debtList (renderUI s) = debtList s"
  "goals (renderUI s) = goals s"
  "categories (renderUI s) = categories s"
  "currentMonth (renderUI s) = currentMonth s"
  by (simp_all add: renderUI_def getMonthData_frame)

lemma pool_update_same: "readyToAssign x = v \<Longrightarrow> x\<lparr>readyToAssign := v\<rparr> = x"
  by auto

lemma ledger_pool_update [simp]: "ledger (s\<lparr>readyToAssign := r\<rparr>) m = ledger s m"
  by (simp add: ledger_def)

lemma ledger_currentMonth_update [simp]: "ledger (s\<lparr>currentMonth := r\<rparr>) m = ledger s m"
  by (simp add: ledger_def)

lemma updateCategoryAssigned_rejected:
  assumes "newValue - budgeted s (currentMonth s) c > readyToAssign s"
  shows "updateCategoryAssigned c newValue s = (Rejected InsufficientFunds, snd (getMonthData (currentMonth s) s))"
  using assms
  by (simp add: updateCategoryAssigned_def budgeted_def split_def Let_def getMonthData_fst getMonthData_frame)

lemma updateCategoryAssigned_done:
  assumes "\<not> newValue - budgeted s (currentMonth s) c > readyToAssign s"
  shows "updateCategoryAssigned c newValue s =
    (Done, renderUI ((setMonthData (currentMonth s) (setAssigned c newValue (ledger s (currentMonth s)))
       (snd (getMonthData (currentMonth s) s)))
       \<lparr>readyToAssign := readyToAssign s - (newValue - budgeted s (currentMonth s) c)\<rparr>))"
  using assms
  by (simp add: updateCategoryAssigned_def budgeted_def split_def Let_def getMonthData_fst getMonthData_frame)

lemma setAllocations_pool:
  "readyToAssign (snd (setAllocations calls s)) = readyToAssign s - sum_list (fst (setAllocations calls s))"
proof (induction calls arbitrary: s)
  case Nil
  show ?case by simp
next
  case (Cons call calls)
  obtain m c v where call: "call = (m, c, v)" by (cases call) 
  let ?s0 = "s\<lparr>currentMonth := m\<rparr>"
  show ?case
  proof (cases "v - budgeted s m c > readyToAssign s")
    case True
    then have "setAllocation m c v s = (Rejected InsufficientFunds, snd (getMonthData m ?s0))"
      using updateCategoryAssigned_rejected [of ?s0 v c]
      by (simp add: setAllocation_def budgeted_def)
    then show ?thesis
      using Cons.IH [of "snd (getMonthData m ?s0)"]
      by (simp add: call split_def Let_def getMonthData_frame)
  next
    case False
    then have "setAllocation m c v s =
      (Done, renderUI ((setMonthData m (setAssigned c v (ledger s m)) (snd (getMonthData m ?s0)))
       \<lparr>readyToAssign := readyToAssign s - (v - budgeted s m c)\<rparr>))"
      using updateCategoryAssigned_done [of ?s0 v c]
      by (simp add: setAllocation_def budgeted_def)
    then show ?thesis
      using Cons.IH [of "renderUI ((setMonthData m (setAssigned c v (ledger s m))
          (snd (getMonthData m ?s0)))
       \<lparr>readyToAssign := readyToAssign s - (v - budgeted s m c)\<rparr>)"]
      by (simp add: call split_def Let_def renderUI_frame)
  qed
qed

lemma setAssigned_lookup:
  "map_of (mcategories (setAssigned c v md)) c' = (if c' = c then Some v else map_of (mcategories md) c')"
  by (simp add: setAssigned_def update_conv')

lemma setAssigned_transactions: "transactions (setAssigned c v md) = transactions md"
  by (simp add: setAssigned_def)

lemma setAllocation_rejected:
  assumes "newBudgeted - budgeted s m c > readyToAssign s"
  shows "setAllocation m c newBudgeted s =
    (Rejected InsufficientFunds, snd (getMonthData m (s\<lparr>currentMonth := m\<rparr>)))"
  using assms updateCategoryAssigned_rejected [of "s\<lparr>currentMonth := m\<rparr>" newBudgeted c]
  by (simp add: setAllocation_def budgeted_def)

lemma setAllocation_done:
  assumes "\<not> newBudgeted - budgeted s m c > readyToAssign s"
  shows "setAllocation m c newBudgeted s =
    (Done, renderUI ((setMonthData m (setAssigned c newBudgeted (ledger s m))
       (snd (getMonthData m (s\<lparr>currentMonth := m\<rparr>))))
       \<lparr>readyToAssign := readyToAssign s - (newBudgeted - budgeted s m c)\<rparr>))"
  using assms updateCategoryAssigned_done [of "s\<lparr>currentMonth := m\<rparr>" newBudgeted c]
  by (simp add: setAllocation_def budgeted_def)

lemma setAllocation_nonneg:
  "0 \<le> readyToAssign s \<Longrightarrow> 0 \<le> readyToAssign (snd (setAllocation m c v s))"
  by (cases "v - budgeted s m c > readyToAssign s")
     (simp_all add: setAllocation_rejected setAllocation_done getMonthData_frame renderUI_frame)

lemma setAllocations_nonneg:
  "0 \<le> readyToAssign s \<Longrightarrow> 0 \<le> readyToAssign (snd (setAllocations calls s))"
proof (induction calls arbitrary: s)
  case Nil
  then show ?case by simp
next
  case (Cons call calls)
  obtain m c v where call: "call = (m, c, v)" by (cases call)
  from Cons.prems have "0 \<le> readyToAssign (snd (setAllocation m c v s))"
    by (rule setAllocation_nonneg)
  then have "0 \<le> readyToAssign (snd (setAllocations calls (snd (setAllocation m c v s))))"
    by (rule Cons.IH)
  then show ?case by (simp add: call split_def Let_def)
qed

section \<open>Finding and deleting a transaction\<close>

lemma findIndex_Some:
  "findIndex P xs = Some n \<Longrightarrow> n < length xs \<and> P (xs ! n) \<and> (\<forall>j<n. \<not> P (xs ! j))"
proof (induction xs arbitrary: n)
  case Nil
  then show ?case by simp
next
  case (Cons x xs)
  show ?case
  proof (cases "P x")
    case True
    with Cons.prems show ?thesis by simp
  next
    case False
    with Cons.prems obtain k where k: "findIndex P xs = Some k" "n = Suc k"
      by (auto split: option.splits)
    from Cons.IH [OF k(1)] False k(2) show ?thesis
      by (auto simp add: less_Suc_eq_0_disj)
  qed
qed

lemma findIndex_None: "findIndex P xs = None \<longleftrightarrow> (\<forall>x\<in>set xs. \<not> P x)"
  by (induction xs) (auto split: option.splits)

lemma findIndex_member:
  assumes "t \<in> set xs" and "distinct (map f xs)"
  shows "\<exists>n. findIndex (\<lambda>x. f x = f t) xs = Some n \<and> n < length xs \<and> xs ! n = t"
proof -
  from assms(1) have "findIndex (\<lambda>x. f x = f t) xs \<noteq> None"
    by (auto simp add: findIndex_None)
  then obtain n where n: "findIndex (\<lambda>x. f x = f t) xs = Some n" by auto
  from findIndex_Some [OF n] have len: "n < length xs" and eq: "f (xs ! n) = f t" by auto
  from assms(1) obtain j where j: "j < length xs" "xs ! j = t" by (auto simp add: in_set_conv_nth)
  from assms(2) len j eq have "n = j"
    by (metis distinct_conv_nth length_map nth_map)
  with n len j show ?thesis by auto
qed

lemma splice1_remove1:
  assumes "n < length xs" and "distinct xs"
  shows "splice1 n xs = remove1 (xs ! n) xs"
  using assms
proof (induction xs arbitrary: n)
  case Nil
  then show ?case by simp
next
  case (Cons x xs)
  then show ?case
    by (cases n) (auto simp add: splice1_def)
qed

lemma handleDeleteTransaction_found:
  assumes "map_of (budgets s) m = Some md"
    and "findIndex (\<lambda>t. tid t = i) (transactions md) = Some n"
  shows "handleDeleteTransaction i m True s =
    (Done, renderUI (setMonthData m (md\<lparr>transactions := splice1 n (transactions md)\<rparr>)
       (s\<lparr>readyToAssign := readyToAssign s -
           (if ttype (transactions md ! n) = Income then amount (transactions md ! n) else 0)\<rparr>)))"
  using assms by (simp add: handleDeleteTransaction_def Let_def)

lemma handleDeleteTransaction_member:
  assumes t: "t \<in> set (transactions (ledger s m))"
    and d: "distinct (map tid (transactions (ledger s m)))"
  shows "handleDeleteTransaction (tid t) m True s =
    (Done, renderUI (setMonthData m
       ((ledger s m)\<lparr>transactions := remove1 t (transactions (ledger s m))\<rparr>)
       (s\<lparr>readyToAssign := readyToAssign s - (if ttype t = Income then amount t else 0)\<rparr>)))"
proof -
  from t obtain md where md: "map_of (budgets s) m = Some md"
    by (cases "map_of (budgets s) m") (auto simp add: ledger_def emptyMonth_def)
  then have l: "ledger s m = md" by (simp add: ledger_def)
  from findIndex_member [of t "transactions md" tid] t d l
  obtain n where n: "findIndex (\<lambda>x. tid x = tid t) (transactions md) = Some n"
    "n < length (transactions md)" "transactions md ! n = t" by auto
  from d l have "distinct (transactions md)" by (simp add: distinct_map)
  with n have "splice1 n (transactions md) = remove1 t (transactions md)"
    by (simp add: splice1_remove1)
  with handleDeleteTransaction_found [OF md n(1)] n(3) l show ?thesis by simp
qed

section \<open>Finding and editing a transaction\<close>

lemma findTransaction_Some:
  "findTransaction i b ks = Some (m, n) \<Longrightarrow>
     \<exists>md. map_of b m = Some md \<and> findIndex (\<lambda>t. tid t = i) (transactions md) = Some n"
  by (induction ks) (auto split: option.splits)

lemma findTransaction_None:
  "findTransaction i b ks = None \<Longrightarrow> k \<in> set ks \<Longrightarrow> map_of b k = Some md \<Longrightarrow>
     t \<in> set (transactions md) \<Longrightarrow> tid t \<noteq> i"
  by (induction ks) (auto split: option.splits simp add: findIndex_None)

lemma ledger_Some: "map_of (budgets s) m = Some md \<Longrightarrow> ledger s m = md"
  by (simp add: ledger_def)

lemma editedTransaction_fields:
  "tid (editedTransaction old d a ty de c) = tid old"
  "tdate (editedTransaction old d a ty de c) = d"
  "amount (editedTransaction old d a ty de c) = a"
  "ttype (editedTransaction old d a ty de c) = ty"
  "description (editedTransaction old d a ty de c) = de"
  "categoryId (editedTransaction old d a ty de c) = (if c = [] then None else Some c)"
  by (simp_all add: editedTransaction_def)

lemma saveEditedTransaction_found:
  assumes valid: "0 < newAmount" "newDescription \<noteq> []" "newType = Expense \<longrightarrow> newCategoryId \<noteq> []"
    and found: "findTransaction i (budgets s) (map fst (budgets s)) = Some (oldMonth, n)"
  shows "saveEditedTransaction i (Some newDate) (Some newAmount) newType newDescription newCategoryId s =
    (Done,
     renderUI ((if monthOf newDate \<noteq> oldMonth
      then setMonthData (monthOf newDate)
             (pushTransaction
                (editedTransaction (transactions (ledger s oldMonth) ! n) newDate newAmount newType
                   newDescription newCategoryId)
                (ledger s (monthOf newDate)))
             (snd (getMonthData (monthOf newDate)
                (setMonthData oldMonth
                   ((ledger s oldMonth)\<lparr>transactions := splice1 n (transactions (ledger s oldMonth))\<rparr>)
                   s)))
      else setMonthData oldMonth
             ((ledger s oldMonth)\<lparr>transactions := (transactions (ledger s oldMonth))
                [n := editedTransaction (transactions (ledger s oldMonth) ! n) newDate newAmount
                   newType newDescription newCategoryId]\<rparr>)
             s)
     \<lparr>readyToAssign := readyToAssign s
        - (if ttype (transactions (ledger s oldMonth) ! n) = Income
           then amount (transactions (ledger s oldMonth) ! n) else 0)
        + (if newType = Income then newAmount else 0)\<rparr>))"
proof -
  from findTransaction_Some [OF found] obtain md where md: "map_of (budgets s) oldMonth = Some md"
    by blast
  then have l: "ledger s oldMonth = md" by (rule ledger_Some)
  have other: "monthOf newDate \<noteq> oldMonth \<Longrightarrow>
     fst (getMonthData (monthOf newDate) (setMonthData oldMonth x s)) = ledger s (monthOf newDate)" for x
    by (simp add: getMonthData_fst setMonthData_ledger)
  show ?thesis
    using valid found md
    by (simp add: saveEditedTransaction_def l Let_def split_def other
        getMonthData_frame setMonthData_frame pool_update_same)
qed

lemma pushTransaction_fields:
  "transactions (pushTransaction t md) = transactions md @ [t]"
  "mcategories (pushTransaction t md) = mcategories md"
  by (simp_all add: pushTransaction_def)

lemma findTransaction_exists:
  assumes "map_of (budgets s) k = Some md" and "t \<in> set (transactions md)"
  shows "findTransaction (tid t) (budgets s) (map fst (budgets s)) \<noteq> None"
proof
  assume none: "findTransaction (tid t) (budgets s) (map fst (budgets s)) = None"
  from assms(1) have "k \<in> set (map fst (budgets s))"
    by (metis map_of_eq_None_iff option.distinct(1) set_map)
  from findTransaction_None [OF none this assms] show False by simp
qed

section \<open>Recording a payment, step by step\<close>

lemma payDebt_fields:
  "currentBalance (payDebt today amt d) = max 0 (currentBalance d - amt)"
  "paymentHistory (payDebt today amt d) = paymentHistory d @ [\<lparr>pdate = today, pamount = amt\<rparr>]"
  "did (payDebt today amt d) = did d"
  "dname (payDebt today amt d) = dname d"
  "originalBalance (payDebt today amt d) = originalBalance d"
  "interestRate (payDebt today amt d) = interestRate d"
  "minPayment (payDebt today amt d) = minPayment d"
  by (simp_all add: payDebt_def max_def)

lemma ledger_other_fields [simp]:
  "ledger (x\<lparr>debtList := a\<rparr>) m = ledger x m"
  "ledger (x\<lparr>categories := b\<rparr>) m = ledger x m"
  "ledger (x\<lparr>goals := g\<rparr>) m = ledger x m"
  by (simp_all add: ledger_def)

lemma find_update_new:
  assumes "find P al = None" and "P (k, v)"
  shows "find P (AList.update k v al) = Some (k, v)"
  using assms by (induction al) (auto split: if_splits)

lemma findDebtPaymentCategory_created:
  assumes "findDebtPaymentCategory cats = None"
  shows "findDebtPaymentCategory (AList.update k (debtPaymentsCategory today) cats) = Some k"
proof -
  let ?P = "\<lambda>kc. cname (snd kc) = ''Debt Payments'' \<and> isActive (snd kc)"
  from assms have "find ?P cats = None" by (simp add: findDebtPaymentCategory_def)
  moreover have "?P (k, debtPaymentsCategory today)" by (simp add: debtPaymentsCategory_def)
  ultimately have "find ?P (AList.update k (debtPaymentsCategory today) cats)
      = Some (k, debtPaymentsCategory today)"
    by (rule find_update_new)
  then show ?thesis by (simp add: findDebtPaymentCategory_def)
qed

lemma recordPayment_rejected:
  assumes "readyToAssign s < amt" and "0 < amt"
  shows "recordPayment newCat newTx today debtId (Some amt) s = (Rejected InsufficientFunds, s)"
  using assms by (simp add: recordPayment_def)

lemma recordPayment_done:
  assumes "\<not> readyToAssign s < amt" and "0 < amt"
    and "findIndex (\<lambda>d. did d = debtId) (debtList s) = Some i"
  shows "recordPayment newCat newTx today debtId (Some amt) s =
    (Done,
     renderUI ((setMonthData (currentMonth s)
        (pushTransaction
           (paymentTransaction newTx today amt (debtList s ! i)
              (case findDebtPaymentCategory (categories s) of Some k \<Rightarrow> k | None \<Rightarrow> newCat))
           (ledger s (currentMonth s)))
        (snd (getMonthData (currentMonth s)
           (s\<lparr>debtList := (debtList s)[i := payDebt today amt (debtList s ! i)],
              categories :=
                (case findDebtPaymentCategory (categories s) of
                   Some k \<Rightarrow> categories s
                 | None \<Rightarrow> AList.update newCat (debtPaymentsCategory today) (categories s))\<rparr>))))
     \<lparr>readyToAssign := readyToAssign s - amt\<rparr>))"
proof -
  have led: "ledger (x\<lparr>debtList := a\<rparr>) m = ledger x m"
    "ledger (x\<lparr>categories := b\<rparr>) m = ledger x m" for x a b m
    by (simp_all add: ledger_def)
  show ?thesis
    using assms
    by (cases "findDebtPaymentCategory (categories s)")
       (simp_all add: recordPayment_def Let_def split_def paymentTransaction_def
        debtPaymentsCategory_def addPersistentCategory_def getMonthData_fst led
        setMonthData_frame getMonthData_frame)
qed

text \<open>
  While an active category named \<open>Debt Payments\<close> exists, no click on the payment form
  changes the categories, whatever its outcome.
\<close>

lemma recordPayment_categories_kept:
  assumes "findDebtPaymentCategory (categories s) = Some k"
  shows "categories (snd (recordPayment newCat newTx today debtId amountIn s)) = categories s"
  using assms
  by (auto simp add: recordPayment_def Let_def split_def renderUI_frame setMonthData_frame
      getMonthData_frame split: option.splits)

lemma recordPayments_categories_kept:
  assumes "findDebtPaymentCategory (categories s) = Some k"
  shows "categories (recordPayments clicks s) = categories s"
  using assms
proof (induction clicks arbitrary: s)
  case Nil
  show ?case by simp
next
  case (Cons c clicks)
  obtain a b t d x where c: "c = (a, b, t, d, x)" by (cases c)
  let ?s1 = "snd (recordPayment a b t d x s)"
  have one: "categories ?s1 = categories s"
    by (rule recordPayment_categories_kept [OF Cons.prems])
  with Cons.prems have "findDebtPaymentCategory (categories ?s1) = Some k" by simp
  then have "categories (recordPayments clicks ?s1) = categories ?s1" by (rule Cons.IH)
  with one show ?case by (simp add: c)
qed

text \<open>The example document after its first payment.\<close>

lemma afterPayment_value:
  "afterPayment =
     \<lparr>budgets = [(0, \<lparr>mcategories = [],
          transactions = [paymentTransaction ''p1'' day5 100 cardDebt ''c1'']\<rparr>)],
      debtList = [payDebt day5 100 cardDebt], goals = [],
      categories = [(''c1'', debtPaymentsCategory day5)],
      currentMonth = 0, readyToAssign = 100\<rparr>"
  by (simp add: afterPayment_def withDebt_def initialState_def recordPayment_def cardDebt_def
      findDebtPaymentCategory_def addPersistentCategory_def getMonthData_def setMonthData_def
      pushTransaction_def renderUI_def emptyMonth_def paymentTransaction_def
      debtPaymentsCategory_def Let_def)

section \<open>The loop of the goal form\<close>

lemma assignGoalMonth_ledger:
  "ledger (assignGoalMonth c v k s) m = (if m = k then setAssigned c v (ledger s k) else ledger s m)"
  by (simp add: assignGoalMonth_def split_def Let_def setMonthData_ledger getMonthData_ledger
      getMonthData_fst)

lemma assignGoalMonth_frame:
  "readyToAssign (assignGoalMonth c v k s) = readyToAssign s"
  "debtList (assignGoalMonth c v k s) = debtList s"
  "goals (assignGoalMonth c v k s) = goals s"
  "categories (assignGoalMonth c v k s) = categories s"
  "currentMonth (assignGoalMonth c v k s) = currentMonth s"
  by (simp_all add: assignGoalMonth_def split_def Let_def setMonthData_frame getMonthData_frame)

lemma assignGoalMonths_ledger:
  "ledger (assignGoalMonths c v start n s) m =
     (if start \<le> m \<and> m < start + int n then setAssigned c v (ledger s m) else ledger s m)"
proof (induction n arbitrary: start s)
  case 0
  show ?case by auto
next
  case (Suc n)
  show ?case
    by (simp add: Suc.IH assignGoalMonth_ledger)
qed

lemma assignGoalMonths_frame:
  "readyToAssign (assignGoalMonths c v start n s) = readyToAssign s"
  "debtList (assignGoalMonths c v start n s) = debtList s"
  "goals (assignGoalMonths c v start n s) = goals s"
  "categories (assignGoalMonths c v start n s) = categories s"
  "currentMonth (assignGoalMonths c v start n s) = currentMonth s"
  by (induction n arbitrary: start s) (simp_all add: assignGoalMonth_frame)

lemma saveGoal_done:
  assumes "name \<noteq> []" and "0 < total'" and "\<not> dateLe due (startOfMonth today)"
  shows "saveGoal goalId newCat today name descr (Some due) (Some total') s =
    (Done,
     renderUI (assignGoalMonths newCat (total' / of_int (monthOf due - monthOf today + 1))
       (monthOf today) (nat (monthOf due - monthOf today + 1))
       (s\<lparr>goals := goals s @ [newGoal goalId name descr due total' (monthOf due - monthOf today + 1)],
          categories := AList.update newCat (goalCategory name today) (categories s)\<rparr>)))"
  using assms
  by (simp add: saveGoal_def Let_def differenceInCalendarMonths_def startOfMonth_def
      addPersistentCategory_def newGoal_def goalCategory_def)

lemma monthsBetween_positive:
  assumes "\<not> dateLe due (startOfMonth today)"
  shows "1 \<le> monthOf due - monthOf today + 1"
  using assms by (auto simp add: dateLe_def startOfMonth_def)

section \<open>The loop that copies categories forward\<close>

lemma copyLoop_lookup:
  "map_of (fst (copyLoop cats nextCats n)) k =
     (case map_of nextCats k of
        Some a \<Rightarrow> Some a
      | None \<Rightarrow> if (\<exists>c. (k, c) \<in> set cats \<and> isActive c) then Some 0 else None)"
proof (induction cats arbitrary: nextCats n)
  case Nil
  show ?case by (simp split: option.splits)
next
  case (Cons kc cats)
  obtain k' c' where kc: "kc = (k', c')" by (cases kc)
  show ?case
    by (auto simp add: kc Cons.IH update_conv' split: option.splits)
qed

lemma copyLoop_count:
  "distinct (map fst cats) \<Longrightarrow>
   snd (copyLoop cats nextCats n) =
     n + length (filter (\<lambda>kc. isActive (snd kc) \<and> map_of nextCats (fst kc) = None) cats)"
proof (induction cats arbitrary: nextCats n)
  case Nil
  show ?case by simp
next
  case (Cons kc cats)
  obtain k' c' where kc: "kc = (k', c')" by (cases kc)
  from Cons.prems kc have notin: "k' \<notin> fst ` set cats" and d: "distinct (map fst cats)"
    by auto
  have same: "filter (\<lambda>kc. isActive (snd kc) \<and> map_of (AList.update k' 0 nextCats) (fst kc) = None) cats
      = filter (\<lambda>kc. isActive (snd kc) \<and> map_of nextCats (fst kc) = None) cats"
    using notin by (intro filter_cong) (auto simp add: update_conv')
  show ?case
    using Cons.IH [OF d] by (simp add: kc same)
qed

lemma copyCategories_result:
  "copyCategories s =
     (snd (copyLoop (categories s) (mcategories (ledger s (currentMonth s + 1))) 0),
      (if 0 < snd (copyLoop (categories s) (mcategories (ledger s (currentMonth s + 1))) 0)
       then renderUI else id)
      (setMonthData (currentMonth s + 1)
        ((ledger s (currentMonth s + 1))\<lparr>mcategories :=
           fst (copyLoop (categories s) (mcategories (ledger s (currentMonth s + 1))) 0)\<rparr>)
        (snd (getMonthData (currentMonth s + 1) (snd (getMonthData (currentMonth s) s))))))"
  by (simp add: copyCategories_def Let_def split_def getMonthData_fst getMonthData_ledger
      getMonthData_frame)

section \<open>Which ledger the duplicate check reads\<close>

text \<open>
  For valid input, the handler raises the duplicate warning exactly when the ledger of
  the month on display holds a transaction of the same date, amount and description;
  a warning leaves every ledger, the pool and the other parts of the state as they were.
\<close>

lemma recordTransaction_flag:
  assumes "0 < amt" and "descr \<noteq> []" and "type = Expense \<longrightarrow> categoryIdIn \<noteq> []"
  shows "fst (recordTransaction newId (Some amt) type (Some d) descr categoryIdIn s) = DuplicateWarning
    \<longleftrightarrow> list_ex (\<lambda>t. tdate t = d \<and> amount t = amt \<and> description t = descr)
          (transactions (ledger s (currentMonth s)))"
proof -
  have same: "sameTransaction new = (\<lambda>t. tdate t = tdate new \<and> amount t = amount new \<and>
      description t = description new)" for new
    by (rule ext) (simp add: sameTransaction_def)
  from assms show ?thesis
    by (simp add: recordTransaction_def Let_def split_def isDuplicateTransaction_def
        getMonthData_fst getMonthData_ledger getMonthData_frame same)
qed

lemma recordTransaction_flagged_unchanged:
  assumes "recordTransaction newId amountIn type dateIn descr categoryIdIn s = (DuplicateWarning, s')"
  shows "(\<forall>m. ledger s' m = ledger s m) \<and> readyToAssign s' = readyToAssign s \<and>
    debtList s' = debtList s \<and> goals s' = goals s \<and> categories s' = categories s \<and>
    currentMonth s' = currentMonth s"
  using assms
  by (auto simp add: recordTransaction_def Let_def split_def isDuplicateTransaction_def
      getMonthData_ledger getMonthData_frame split: option.splits if_splits)

section \<open>The pool equation, handler by handler\<close>

text \<open>
  Every handler modelled here keeps the pool equation, except the goal form: it raises
  the assigned total by the goal's amount and leaves the pool as it was.
\<close>

lemma sum_list_update:
  fixes g :: "'v \<Rightarrow> rat"
  shows "sum_list (map (\<lambda>kv. g (snd kv)) (AList.update k v al)) =
     sum_list (map (\<lambda>kv. g (snd kv)) al)
       - (case map_of al k of None \<Rightarrow> 0 | Some x \<Rightarrow> g x) + g v"
  by (induction al) auto

lemma assignedSum_setAssigned:
  "assignedSum (setAssigned c v md) = assignedSum md - assignedOr0 md c + v"
  using sum_list_update [of "\<lambda>x. x" c v "mcategories md"]
  by (simp add: assignedSum_def setAssigned_def assignedOr0_def split: option.splits)

lemma incomeOf_simps:
  "incomeOf emptyMonth = 0"
  "incomeOf (setAssigned c v md) = incomeOf md"
  "incomeOf (pushTransaction t md) = incomeOf md + (if ttype t = Income then amount t else 0)"
  by (simp_all add: incomeOf_def emptyMonth_def setAssigned_def pushTransaction_def)

lemma assignedSum_simps:
  "assignedSum emptyMonth = 0"
  "assignedSum (pushTransaction t md) = assignedSum md"
  "assignedSum (md\<lparr>transactions := ts\<rparr>) = assignedSum md"
  by (simp_all add: assignedSum_def emptyMonth_def pushTransaction_def)

lemma totals_getMonthData:
  "incomeTotal (snd (getMonthData m s)) = incomeTotal s"
  "budgetedTotal (snd (getMonthData m s)) = budgetedTotal s"
  "paymentsTotal (snd (getMonthData m s)) = paymentsTotal s"
  by (simp_all add: getMonthData_def incomeTotal_def budgetedTotal_def paymentsTotal_def
      incomeOf_simps assignedSum_simps split: option.splits)

lemma totals_renderUI:
  "incomeTotal (renderUI s) = incomeTotal s"
  "budgetedTotal (renderUI s) = budgetedTotal s"
  "paymentsTotal (renderUI s) = paymentsTotal s"
  by (simp_all add: renderUI_def totals_getMonthData)

lemma totals_setMonthData:
  "incomeTotal (setMonthData m md s) = incomeTotal s - incomeOf (ledger s m) + incomeOf md"
  "budgetedTotal (setMonthData m md s) = budgetedTotal s - assignedSum (ledger s m) + assignedSum md"
  "paymentsTotal (setMonthData m md s) = paymentsTotal s"
  by (simp_all add: setMonthData_def incomeTotal_def budgetedTotal_def paymentsTotal_def
      sum_list_update ledger_def incomeOf_simps assignedSum_simps split: option.splits)

lemma totals_pool_update [simp]:
  "incomeTotal (s\<lparr>readyToAssign := r\<rparr>) = incomeTotal s"
  "budgetedTotal (s\<lparr>readyToAssign := r\<rparr>) = budgetedTotal s"
  "paymentsTotal (s\<lparr>readyToAssign := r\<rparr>) = paymentsTotal s"
  "incomeTotal (s\<lparr>currentMonth := m\<rparr>) = incomeTotal s"
  "budgetedTotal (s\<lparr>currentMonth := m\<rparr>) = budgetedTotal s"
  "paymentsTotal (s\<lparr>currentMonth := m\<rparr>) = paymentsTotal s"
  "incomeTotal (s\<lparr>categories := cs\<rparr>) = incomeTotal s"
  "budgetedTotal (s\<lparr>categories := cs\<rparr>) = budgetedTotal s"
  "paymentsTotal (s\<lparr>categories := cs\<rparr>) = paymentsTotal s"
  "incomeTotal (s\<lparr>goals := gs\<rparr>) = incomeTotal s"
  "budgetedTotal (s\<lparr>goals := gs\<rparr>) = budgetedTotal s"
  "paymentsTotal (s\<lparr>goals := gs\<rparr>) = paymentsTotal s"
  "incomeTotal (s\<lparr>debtList := ds\<rparr>) = incomeTotal s"
  "budgetedTotal (s\<lparr>debtList := ds\<rparr>) = budgetedTotal s"
  by (simp_all add: incomeTotal_def budgetedTotal_def paymentsTotal_def)

lemma poolInvariant_updateCategoryAssigned:
  assumes "poolInvariant s"
  shows "poolInvariant (snd (updateCategoryAssigned c v s))"
proof (cases "v - budgeted s (currentMonth s) c > readyToAssign s")
  case True
  with assms show ?thesis
    by (simp add: updateCategoryAssigned_rejected poolInvariant_def totals_getMonthData
        getMonthData_frame)
next
  case False
  with assms show ?thesis
    by (simp add: updateCategoryAssigned_done poolInvariant_def totals_renderUI renderUI_frame
        totals_setMonthData totals_getMonthData getMonthData_ledger assignedSum_setAssigned
        incomeOf_simps budgeted_def)
qed

lemma sum_list_splice1:
  fixes g :: "'a \<Rightarrow> rat"
  shows "n < length xs \<Longrightarrow> sum_list (map g (splice1 n xs)) = sum_list (map g xs) - g (xs ! n)"
proof -
  assume n: "n < length xs"
  then have "xs = take n xs @ xs ! n # drop (Suc n) xs" by (rule id_take_nth_drop)
  then have "sum_list (map g xs) = sum_list (map g (take n xs @ xs ! n # drop (Suc n) xs))"
    by simp
  then show ?thesis by (simp add: splice1_def)
qed

lemma sum_list_list_update:
  fixes g :: "'a \<Rightarrow> rat"
  shows "n < length xs \<Longrightarrow> sum_list (map g (xs[n := y])) = sum_list (map g xs) - g (xs ! n) + g y"
proof -
  assume n: "n < length xs"
  then have "xs = take n xs @ xs ! n # drop (Suc n) xs" by (rule id_take_nth_drop)
  then have a: "sum_list (map g xs) = sum_list (map g (take n xs @ xs ! n # drop (Suc n) xs))"
    by simp
  from n have "xs[n := y] = take n xs @ y # drop (Suc n) xs" by (rule upd_conv_take_nth_drop)
  with a show ?thesis by simp
qed

lemma sum_list_income:
  "sum_list (map amount (filter (\<lambda>t. ttype t = Income) ts)) = sum_list (map incomePart ts)"
  by (induction ts) (simp_all add: incomePart_def)

lemma incomeOf_alt: "incomeOf md = sum_list (map incomePart (transactions md))"
  by (simp add: incomeOf_def sum_list_income)

lemma incomeOf_splice1:
  "n < length (transactions md) \<Longrightarrow>
     incomeOf (md\<lparr>transactions := splice1 n (transactions md)\<rparr>) =
       incomeOf md - incomePart (transactions md ! n)"
  by (simp add: incomeOf_alt sum_list_splice1)

lemma incomeOf_list_update:
  "n < length (transactions md) \<Longrightarrow>
     incomeOf (md\<lparr>transactions := (transactions md)[n := u]\<rparr>) =
       incomeOf md - incomePart (transactions md ! n) + incomePart u"
  by (simp add: incomeOf_alt sum_list_list_update)

lemma poolInvariant_assignFunds:
  assumes "poolInvariant s"
  shows "poolInvariant (snd (assignFunds c amountIn assignToMonth s))"
  using assms
  by (auto simp add: assignFunds_def poolInvariant_def Let_def split_def totals_renderUI
      renderUI_frame totals_setMonthData totals_getMonthData setMonthData_frame
      getMonthData_frame getMonthData_ledger getMonthData_fst assignedSum_setAssigned
      incomeOf_simps split: option.splits)

lemma poolInvariant_handleQuickBudget:
  assumes "poolInvariant s"
  shows "poolInvariant (snd (handleQuickBudget c s))"
  using assms
  by (auto simp add: handleQuickBudget_def poolInvariant_def Let_def split_def totals_renderUI
      renderUI_frame totals_setMonthData totals_getMonthData setMonthData_frame
      getMonthData_frame getMonthData_ledger getMonthData_fst assignedSum_setAssigned
      incomeOf_simps split: option.splits)

lemma poolInvariant_insertTransaction:
  assumes "poolInvariant s"
  shows "poolInvariant (insertTransaction m t s)"
  using assms
  by (simp add: insertTransaction_def updateReadyToAssign_def poolInvariant_def Let_def
      split_def totals_setMonthData totals_getMonthData setMonthData_frame getMonthData_frame
      getMonthData_ledger getMonthData_fst incomeOf_simps assignedSum_simps)

lemma poolInvariant_renderUI: "poolInvariant (renderUI s) = poolInvariant s"
  by (simp add: poolInvariant_def totals_renderUI renderUI_frame)

lemma poolInvariant_getMonthData: "poolInvariant (snd (getMonthData m s)) = poolInvariant s"
  by (simp add: poolInvariant_def totals_getMonthData getMonthData_frame)

lemma poolInvariant_recordTransaction:
  assumes "poolInvariant s"
  shows "poolInvariant (snd (recordTransaction newId amountIn type dateIn descr categoryIdIn s))"
  using assms
  by (auto simp add: recordTransaction_def isDuplicateTransaction_def Let_def split_def
      poolInvariant_renderUI poolInvariant_getMonthData poolInvariant_insertTransaction
      split: option.splits)

lemma poolInvariant_addDuplicateAnyway:
  "poolInvariant s \<Longrightarrow> poolInvariant (addDuplicateAnyway m t s)"
  by (simp add: addDuplicateAnyway_def poolInvariant_renderUI poolInvariant_insertTransaction)

lemma poolInvariant_handleDeleteCategory:
  "poolInvariant s \<Longrightarrow> poolInvariant (snd (handleDeleteCategory c confirmed s))"
  by (auto simp add: handleDeleteCategory_def poolInvariant_def totals_renderUI renderUI_frame
      split: option.splits)

lemma poolInvariant_navigation:
  "poolInvariant s \<Longrightarrow> poolInvariant (prevMonthBtn s)"
  "poolInvariant s \<Longrightarrow> poolInvariant (nextMonthBtn s)"
  by (simp_all add: prevMonthBtn_def nextMonthBtn_def poolInvariant_def totals_renderUI
      renderUI_frame)

lemma incomePart_edited:
  "incomePart (editedTransaction old d a ty de c) = (if ty = Income then a else 0)"
  by (simp add: incomePart_def editedTransaction_fields)

lemma poolInvariant_saveEditedTransaction:
  assumes inv: "poolInvariant s"
  shows "poolInvariant (snd (saveEditedTransaction i dIn aIn ty de c s))"
proof (cases "\<exists>a d. aIn = Some a \<and> dIn = Some d \<and> 0 < a \<and> de \<noteq> [] \<and> (ty = Expense \<longrightarrow> c \<noteq> [])")
  case False
  have "snd (saveEditedTransaction i dIn aIn ty de c s) = s"
  proof (cases aIn)
    case None
    then show ?thesis by (simp add: saveEditedTransaction_def)
  next
    case a: (Some a)
    show ?thesis
    proof (cases dIn)
      case None
      with a show ?thesis by (simp add: saveEditedTransaction_def)
    next
      case (Some d)
      with a False have "a \<le> 0 \<or> de = [] \<or> (ty = Expense \<and> c = [])" by auto
      with a Some show ?thesis by (auto simp add: saveEditedTransaction_def)
    qed
  qed
  with inv show ?thesis by simp
next
  case True
  then obtain a d where in': "aIn = Some a" "dIn = Some d"
    and valid: "0 < a" "de \<noteq> []" "ty = Expense \<longrightarrow> c \<noteq> []"
    by blast
  show ?thesis
  proof (cases "findTransaction i (budgets s) (map fst (budgets s))")
    case None
    with valid have "snd (saveEditedTransaction i dIn aIn ty de c s) = renderUI s"
      by (auto simp add: saveEditedTransaction_def in')
    with inv show ?thesis by (simp add: poolInvariant_renderUI)
  next
    case (Some found)
    obtain om n where found: "found = (om, n)" by (cases found)
    from Some found have f: "findTransaction i (budgets s) (map fst (budgets s)) = Some (om, n)"
      by simp
    from findTransaction_Some [OF f] obtain md where md: "map_of (budgets s) om = Some md"
      and ix: "findIndex (\<lambda>t. tid t = i) (transactions md) = Some n"
      by blast
    from md have l: "ledger s om = md" by (rule ledger_Some)
    from findIndex_Some [OF ix] l have n: "n < length (transactions (ledger s om))" by simp
    note res = saveEditedTransaction_found [OF valid f, of d]
    show ?thesis
    proof (cases "monthOf d = om")
      case True
      with inv n show ?thesis
        by (simp add: in' res poolInvariant_def totals_renderUI renderUI_frame
            totals_setMonthData setMonthData_frame incomeOf_list_update
            assignedSum_simps incomePart_def editedTransaction_fields)
    next
      case False
      with inv n show ?thesis
        by (simp add: in' res poolInvariant_def totals_renderUI renderUI_frame
            totals_setMonthData totals_getMonthData setMonthData_frame getMonthData_frame
            getMonthData_ledger setMonthData_ledger incomeOf_splice1 incomeOf_simps
            assignedSum_simps incomePart_def editedTransaction_fields)
    qed
  qed
qed

lemma poolInvariant_handleDeleteTransaction:
  assumes inv: "poolInvariant s"
  shows "poolInvariant (snd (handleDeleteTransaction i m confirmed s))"
proof (cases "confirmed \<and> (\<exists>md n. map_of (budgets s) m = Some md \<and>
    findIndex (\<lambda>t. tid t = i) (transactions md) = Some n)")
  case False
  then have "snd (handleDeleteTransaction i m confirmed s) = s"
    by (auto simp add: handleDeleteTransaction_def split: option.splits)
  with inv show ?thesis by simp
next
  case True
  then obtain md n where c: "confirmed" and md: "map_of (budgets s) m = Some md"
    and ix: "findIndex (\<lambda>t. tid t = i) (transactions md) = Some n"
    by blast
  from md have l: "ledger s m = md" by (rule ledger_Some)
  from findIndex_Some [OF ix] have n: "n < length (transactions md)" by simp
  from inv n c show ?thesis
    by (simp add: handleDeleteTransaction_found [OF md ix] poolInvariant_def totals_renderUI
        renderUI_frame totals_setMonthData setMonthData_frame l incomeOf_splice1
        assignedSum_simps incomePart_def)
qed

lemma paidOf_payDebt: "paidOf (payDebt today amt d) = paidOf d + amt"
  by (simp add: paidOf_def payDebt_def)

lemma poolInvariant_recordPayment:
  assumes inv: "poolInvariant s"
  shows "poolInvariant (snd (recordPayment newCat newTx today debtId amountIn s))"
proof (cases "\<exists>amt i. amountIn = Some amt \<and> 0 < amt \<and> \<not> readyToAssign s < amt \<and>
    findIndex (\<lambda>d. did d = debtId) (debtList s) = Some i")
  case False
  have "snd (recordPayment newCat newTx today debtId amountIn s) = s"
  proof (cases amountIn)
    case None
    then show ?thesis by (simp add: recordPayment_def)
  next
    case (Some amt)
    with False have "amt \<le> 0 \<or> readyToAssign s < amt \<or>
        findIndex (\<lambda>d. did d = debtId) (debtList s) = None"
      by (cases "findIndex (\<lambda>d. did d = debtId) (debtList s)") auto
    with Some show ?thesis by (auto simp add: recordPayment_def)
  qed
  with inv show ?thesis by simp
next
  case True
  then obtain amt i where in': "amountIn = Some amt" and pos: "0 < amt"
    and acc: "\<not> readyToAssign s < amt"
    and ix: "findIndex (\<lambda>d. did d = debtId) (debtList s) = Some i"
    by blast
  from findIndex_Some [OF ix] have i: "i < length (debtList s)" by simp
  have paid: "paymentsTotal (x\<lparr>debtList := (debtList s)[i := payDebt today amt (debtList s ! i)]\<rparr>)
      = paymentsTotal s + amt" for x :: state
    using i by (simp add: paymentsTotal_def sum_list_list_update paidOf_payDebt)
  from inv show ?thesis
    by (simp add: in' recordPayment_done [OF acc pos ix] poolInvariant_def totals_renderUI
        renderUI_frame totals_setMonthData totals_getMonthData setMonthData_frame
        getMonthData_frame getMonthData_ledger paid incomeOf_simps assignedSum_simps
        paymentTransaction_def)
qed

lemma copyLoop_sum:
  "sum_list (map snd (fst (copyLoop cats nextCats n))) = sum_list (map snd nextCats)"
proof (induction cats arbitrary: nextCats n)
  case Nil
  show ?case by simp
next
  case (Cons kc cats)
  show ?case
    using sum_list_update [of "\<lambda>x. x" "fst kc" 0 nextCats]
    by (simp add: Cons.IH)
qed

lemma poolInvariant_copyCategories:
  assumes inv: "poolInvariant s"
  shows "poolInvariant (snd (copyCategories s))"
proof -
  have a: "assignedSum (md\<lparr>mcategories := fst (copyLoop cats (mcategories md) n)\<rparr>) =
      assignedSum md" for md cats n
    by (simp add: assignedSum_def copyLoop_sum)
  have i: "incomeOf (md\<lparr>mcategories := x\<rparr>) = incomeOf md" for md x
    by (simp add: incomeOf_def)
  from inv show ?thesis
    by (simp add: copyCategories_result poolInvariant_def totals_renderUI renderUI_frame
        totals_setMonthData totals_getMonthData setMonthData_frame getMonthData_frame
        getMonthData_ledger a i)
qed

lemma budgetedTotal_assignGoalMonth:
  "budgetedTotal (assignGoalMonth c v k s) = budgetedTotal s - budgeted s k c + v"
  by (simp add: assignGoalMonth_def Let_def split_def totals_setMonthData totals_getMonthData
      getMonthData_ledger getMonthData_fst assignedSum_setAssigned budgeted_def)

lemma totals_assignGoalMonth:
  "incomeTotal (assignGoalMonth c v k s) = incomeTotal s"
  "paymentsTotal (assignGoalMonth c v k s) = paymentsTotal s"
  by (simp_all add: assignGoalMonth_def Let_def split_def totals_setMonthData totals_getMonthData
      getMonthData_ledger getMonthData_fst incomeOf_simps)

lemma totals_assignGoalMonths:
  "incomeTotal (assignGoalMonths c v start n s) = incomeTotal s"
  "paymentsTotal (assignGoalMonths c v start n s) = paymentsTotal s"
  by (induction n arbitrary: start s) (simp_all add: totals_assignGoalMonth)

lemma budgeted_assignGoalMonth:
  "m \<noteq> k \<Longrightarrow> budgeted (assignGoalMonth c v k s) m c' = budgeted s m c'"
  by (simp add: budgeted_def assignGoalMonth_ledger)

lemma budgetedTotal_assignGoalMonths:
  "\<forall>m\<ge>start. budgeted s m c = 0 \<Longrightarrow>
     budgetedTotal (assignGoalMonths c v start n s) = budgetedTotal s + of_nat n * v"
proof (induction n arbitrary: start s)
  case 0
  show ?case by simp
next
  case (Suc n)
  from Suc.prems have "\<forall>m\<ge>start + 1. budgeted (assignGoalMonth c v start s) m c = 0"
    by (simp add: budgeted_assignGoalMonth)
  from Suc.IH [OF this] Suc.prems show ?case
    by (simp add: budgetedTotal_assignGoalMonth algebra_simps)
qed

lemma saveGoal_totals:
  assumes valid: "name \<noteq> []" "0 < total'" "\<not> dateLe due (startOfMonth today)"
    and fresh: "\<forall>m. budgeted s m newCat = 0"
    and run: "saveGoal goalId newCat today name descr (Some due) (Some total') s = (r, s')"
  shows "budgetedTotal s' = budgetedTotal s + total'" and "incomeTotal s' = incomeTotal s"
    and "paymentsTotal s' = paymentsTotal s" and "readyToAssign s' = readyToAssign s"
proof -
  let ?mb = "monthOf due - monthOf today + 1"
  let ?s0 = "s\<lparr>goals := goals s @ [newGoal goalId name descr due total' ?mb],
          categories := AList.update newCat (goalCategory name today) (categories s)\<rparr>"
  from monthsBetween_positive [OF valid(3)] have pos: "1 \<le> ?mb" .
  from run saveGoal_done [OF valid, of goalId newCat descr s]
  have s': "s' = renderUI (assignGoalMonths newCat (total' / of_int ?mb) (monthOf today)
       (nat ?mb) ?s0)"
    by simp
  from fresh have "\<forall>m\<ge>monthOf today. budgeted ?s0 m newCat = 0"
    by (simp add: budgeted_def)
  from budgetedTotal_assignGoalMonths [OF this, of "total' / of_int ?mb" "nat ?mb"] pos
  show "budgetedTotal s' = budgetedTotal s + total'"
    by (simp add: s' totals_renderUI)
  show "incomeTotal s' = incomeTotal s" and "paymentsTotal s' = paymentsTotal s"
    by (simp_all add: s' totals_renderUI totals_assignGoalMonths)
  show "readyToAssign s' = readyToAssign s"
    by (simp add: s' renderUI_frame assignGoalMonths_frame)
qed

lemma saveGoal_breaks_poolInvariant:
  assumes "name \<noteq> []" "0 < total'" "\<not> dateLe due (startOfMonth today)"
    and "\<forall>m. budgeted s m newCat = 0"
    and "saveGoal goalId newCat today name descr (Some due) (Some total') s = (r, s')"
    and "poolInvariant s"
  shows "\<not> poolInvariant s'"
  using saveGoal_totals [OF assms(1-5)] assms(2,6) by (simp add: poolInvariant_def)

section \<open>Activity and available, derived and cached\<close>

lemma foldl_sum:
  fixes a :: rat
  shows "foldl (\<lambda>sum t. sum + f t) a ts = a + sum_list (map f ts)"
  by (induction ts arbitrary: a) simp_all

lemma calculateActivity_value: "fst (calculateActivity m c s) = activity s m c"
proof -
  have "fst (calculateActivity m c s) =
      sum_list (map amount
        (filter (\<lambda>t. categoryId t = Some c \<and> ttype t = Expense) (transactions (ledger s m))))"
    by (simp add: calculateActivity_def split_def getMonthData_fst foldl_sum)
  also have "filter (\<lambda>t. categoryId t = Some c \<and> ttype t = Expense) (transactions (ledger s m)) =
      filter (\<lambda>t. ttype t = Expense \<and> categoryId t = Some c) (transactions (ledger s m))"
    by (rule filter_cong) auto
  finally show ?thesis by (simp add: activity_def)
qed

lemma calculateCategoryAvailable_value:
  "fst (calculateCategoryAvailable m c s) = budgeted s m c - activity s m c"
proof -
  have "activity (snd (getMonthData m s)) m c = activity s m c"
    by (simp add: activity_def getMonthData_ledger)
  then show ?thesis
    by (simp add: calculateCategoryAvailable_def Let_def split_def getMonthData_fst
        calculateActivity_value budgeted_def)
qed

lemma getCurrentBudget_put:
  "map_of (s_budgets s) (s_currentMonth s) \<noteq> None \<Longrightarrow> getCurrentBudget (putCurrentBudget b s) = b"
  by (auto simp add: getCurrentBudget_def putCurrentBudget_def update_conv')

lemma budgets_put:
  "map_of (s_budgets (putCurrentBudget b s)) m =
     (if m = s_currentMonth s \<and> map_of (s_budgets s) m \<noteq> None then Some b
      else map_of (s_budgets s) m)"
  by (auto simp add: putCurrentBudget_def update_conv' split: option.splits)

lemma consistent_put:
  assumes "consistent s" and "consistentBudget b"
  shows "consistent (putCurrentBudget b s)"
  using assms by (auto simp add: consistent_def budgets_put split: if_splits)

lemma consistent_current:
  assumes "consistent s"
  shows "consistentBudget (getCurrentBudget s)"
  using assms
  by (auto simp add: consistent_def getCurrentBudget_def consistentBudget_def split: option.splits)

lemma signedSum_alt: "signedSum b k = sum_list (map (part k) (b_transactions b))"
proof -
  have "sum_list (map t_amount (filter (\<lambda>t. t_categoryId t = k) ts)) = sum_list (map (part k) ts)"
    for ts
    by (induction ts) (simp_all add: part_def)
  then show ?thesis by (simp add: signedSum_def)
qed

lemma consistentBudget_step:
  assumes c: "consistentBudget b" and cat: "map_of (b_categories b) k = Some cat"
    and sums: "\<And>k'. sum_list (map (part k') ts') =
        sum_list (map (part k') (b_transactions b)) + (if k' = k then d else 0)"
  shows "consistentBudget (b\<lparr>b_transactions := ts',
      b_categories := AList.update k (refreshAvailable (cat\<lparr>c_activity := c_activity cat + d\<rparr>))
        (b_categories b)\<rparr>)"
  unfolding consistentBudget_def
proof (intro allI impI)
  fix k' cat'
  let ?b' = "b\<lparr>b_transactions := ts',
      b_categories := AList.update k (refreshAvailable (cat\<lparr>c_activity := c_activity cat + d\<rparr>))
        (b_categories b)\<rparr>"
  assume look: "map_of (b_categories ?b') k' = Some cat'"
  have sum': "signedSum (b\<lparr>b_transactions := ts', b_categories := cs\<rparr>) j =
      signedSum b j + (if j = k then d else 0)" for cs j
    by (simp add: signedSum_alt sums)
  show "c_activity cat' = signedSum ?b' k' \<and> c_available cat' = c_budgeted cat' + c_activity cat'"
  proof (cases "k' = k")
    case True
    with look have "cat' = refreshAvailable (cat\<lparr>c_activity := c_activity cat + d\<rparr>)"
      by (simp add: update_conv')
    moreover from c cat have "c_activity cat = signedSum b k"
      by (simp add: consistentBudget_def)
    ultimately show ?thesis
      using True by (simp add: sum' refreshAvailable_def)
  next
    case False
    with look have "map_of (b_categories b) k' = Some cat'"
      by (simp add: update_conv')
    with c have "c_activity cat' = signedSum b k'"
      and "c_available cat' = c_budgeted cat' + c_activity cat'"
      by (simp_all add: consistentBudget_def)
    with False show ?thesis by (simp add: sum')
  qed
qed

lemma consistentBudget_step':
  assumes "consistentBudget b" and "map_of (b_categories b) k = Some cat"
    and "a' = c_activity cat + d"
    and "\<And>k'. sum_list (map (part k') ts') =
        sum_list (map (part k') (b_transactions b)) + (if k' = k then d else 0)"
  shows "consistentBudget (b\<lparr>b_transactions := ts',
      b_categories := AList.update k (refreshAvailable (cat\<lparr>c_activity := a'\<rparr>))
        (b_categories b)\<rparr>)"
  unfolding assms(3) using assms(1,2,4) by (rule consistentBudget_step)

lemma current_exists:
  "map_of (b_categories (getCurrentBudget s)) k = Some cat \<Longrightarrow>
     map_of (s_budgets s) (s_currentMonth s) \<noteq> None"
  by (auto simp add: getCurrentBudget_def split: option.splits)

lemma consistent_addTransaction:
  assumes inv: "consistent s"
  shows "consistent (snd (addTransaction newId now k descr amountIn s))"
proof (cases "\<exists>amt cat. \<not> blank descr \<and> amountIn = Some amt \<and>
    map_of (b_categories (getCurrentBudget s)) k = Some cat")
  case False
  have "snd (addTransaction newId now k descr amountIn s) = s"
  proof (cases amountIn)
    case None
    then show ?thesis by (simp add: addTransaction_def)
  next
    case (Some amt)
    with False have "blank descr \<or> map_of (b_categories (getCurrentBudget s)) k = None"
      by (cases "map_of (b_categories (getCurrentBudget s)) k") auto
    with Some show ?thesis by (auto simp add: addTransaction_def Let_def)
  qed
  with inv show ?thesis by simp
next
  case True
  then obtain amt cat where ok: "\<not> blank descr" "amountIn = Some amt"
    and cat: "map_of (b_categories (getCurrentBudget s)) k = Some cat"
    by blast
  let ?t = "\<lparr>t_id = newId, t_categoryId = k, t_description = trim descr, t_amount = amt,
      t_date = now\<rparr>"
  have "consistentBudget ((getCurrentBudget s)\<lparr>
      b_transactions := b_transactions (getCurrentBudget s) @ [?t],
      b_categories := AList.update k (refreshAvailable (cat\<lparr>c_activity := c_activity cat + amt\<rparr>))
        (b_categories (getCurrentBudget s))\<rparr>)"
    by (rule consistentBudget_step [OF consistent_current [OF inv] cat]) (simp add: part_def)
  from consistent_put [OF inv this] ok cat show ?thesis
    by (simp add: addTransaction_def Let_def)
qed

lemma consistent_editTransaction:
  assumes inv: "consistent s"
  shows "consistent (snd (editTransaction i descr amountIn s))"
proof (cases "\<exists>amt n cat. \<not> blank descr \<and> amountIn = Some amt \<and>
    findIndex (\<lambda>t. t_id t = i) (b_transactions (getCurrentBudget s)) = Some n \<and>
    map_of (b_categories (getCurrentBudget s))
      (t_categoryId (b_transactions (getCurrentBudget s) ! n)) = Some cat")
  case False
  have "snd (editTransaction i descr amountIn s) = s"
  proof (cases amountIn)
    case None
    then show ?thesis by (simp add: editTransaction_def)
  next
    case amt: (Some amt)
    show ?thesis
    proof (cases "findIndex (\<lambda>t. t_id t = i) (b_transactions (getCurrentBudget s))")
      case None
      with amt show ?thesis by (simp add: editTransaction_def Let_def)
    next
      case (Some n)
      with amt False have "blank descr \<or> map_of (b_categories (getCurrentBudget s))
          (t_categoryId (b_transactions (getCurrentBudget s) ! n)) = None"
        by (cases "map_of (b_categories (getCurrentBudget s))
          (t_categoryId (b_transactions (getCurrentBudget s) ! n))") auto
      with amt Some show ?thesis by (auto simp add: editTransaction_def Let_def)
    qed
  qed
  with inv show ?thesis by simp
next
  case True
  then obtain amt n cat where ok: "\<not> blank descr" "amountIn = Some amt"
    and ix: "findIndex (\<lambda>t. t_id t = i) (b_transactions (getCurrentBudget s)) = Some n"
    and cat: "map_of (b_categories (getCurrentBudget s))
      (t_categoryId (b_transactions (getCurrentBudget s) ! n)) = Some cat"
    by blast
  let ?b = "getCurrentBudget s"
  let ?t = "b_transactions ?b ! n"
  let ?t1 = "?t\<lparr>t_amount := amt, t_description := trim descr\<rparr>"
  from findIndex_Some [OF ix] have n: "n < length (b_transactions ?b)" by simp
  have "consistentBudget (?b\<lparr>b_transactions := (b_transactions ?b)[n := ?t1],
      b_categories := AList.update (t_categoryId ?t)
        (refreshAvailable (cat\<lparr>c_activity := c_activity cat - t_amount ?t + amt\<rparr>))
        (b_categories ?b)\<rparr>)"
    by (rule consistentBudget_step' [OF consistent_current [OF inv] cat,
          where d = "amt - t_amount ?t"])
       (simp_all add: sum_list_list_update [OF n] part_def)
  then show ?thesis
    using consistent_put [OF inv] ok ix cat by (simp add: editTransaction_def Let_def)
qed

lemma consistent_deleteTransaction:
  assumes inv: "consistent s"
  shows "consistent (snd (deleteTransaction i confirmed s))"
proof (cases "\<exists>n cat. confirmed \<and>
    findIndex (\<lambda>t. t_id t = i) (b_transactions (getCurrentBudget s)) = Some n \<and>
    map_of (b_categories (getCurrentBudget s))
      (t_categoryId (b_transactions (getCurrentBudget s) ! n)) = Some cat")
  case False
  have "snd (deleteTransaction i confirmed s) = s"
  proof (cases "findIndex (\<lambda>t. t_id t = i) (b_transactions (getCurrentBudget s))")
    case None
    then show ?thesis by (simp add: deleteTransaction_def Let_def)
  next
    case (Some n)
    with False have "\<not> confirmed \<or> map_of (b_categories (getCurrentBudget s))
          (t_categoryId (b_transactions (getCurrentBudget s) ! n)) = None"
      by (cases "map_of (b_categories (getCurrentBudget s))
          (t_categoryId (b_transactions (getCurrentBudget s) ! n))") auto
    with Some show ?thesis by (auto simp add: deleteTransaction_def Let_def)
  qed
  with inv show ?thesis by simp
next
  case True
  then obtain n cat where ok: "confirmed"
    and ix: "findIndex (\<lambda>t. t_id t = i) (b_transactions (getCurrentBudget s)) = Some n"
    and cat: "map_of (b_categories (getCurrentBudget s))
      (t_categoryId (b_transactions (getCurrentBudget s) ! n)) = Some cat"
    by blast
  let ?b = "getCurrentBudget s"
  let ?t = "b_transactions ?b ! n"
  from findIndex_Some [OF ix] have n: "n < length (b_transactions ?b)" by simp
  have "consistentBudget (?b\<lparr>b_transactions := splice1 n (b_transactions ?b),
      b_categories := AList.update (t_categoryId ?t)
        (refreshAvailable (cat\<lparr>c_activity := c_activity cat - t_amount ?t\<rparr>))
        (b_categories ?b)\<rparr>)"
    by (rule consistentBudget_step' [OF consistent_current [OF inv] cat,
          where d = "- t_amount ?t"])
       (simp_all add: sum_list_splice1 [OF n] part_def)
  then show ?thesis
    using consistent_put [OF inv] ok ix cat by (simp add: deleteTransaction_def Let_def)
qed

lemma afterSpend_value:
  "addTransaction ''x1'' ''2024-01-05T10:00:00.000Z'' ''c1'' ''lunch'' (Some 50) foodBudget =
     (Ok, foodBudget\<lparr>s_budgets :=
        [(0, \<lparr>b_categories =
                [(''c1'', \<lparr>c_name = ''Food'', c_budgeted = 100, c_activity = 50,
                           c_available = 150\<rparr>)],
              b_transactions =
                [\<lparr>t_id = ''x1'', t_categoryId = ''c1'', t_description = ''lunch'', t_amount = 50,
                  t_date = ''2024-01-05T10:00:00.000Z''\<rparr>]\<rparr>)]\<rparr>)"
  by (simp add: addTransaction_def foodBudget_def getCurrentBudget_def putCurrentBudget_def
      refreshAvailable_def blank_def trim_def isSpace_def Let_def)

section \<open>The pool equation\<close>

text \<open>
  C1. The claim is that \<open>readyToAssign\<close> equals income minus assigned amounts minus debt
  payments in every reachable state, and that every mutating operation, goal creation
  among them, keeps the equation. The equation holds in a new document. Creating a
  goal of 1200 there succeeds and leaves \<open>readyToAssign = 0\<close> and no income, while 1200
  is assigned over twelve months: the equation fails in the state reached.
\<close>

theorem goal_creation_breaks_pool_equation:
  "poolInvariant (initialState 0) \<and>
   fst (saveGoal ''g1'' ''c9'' day5 ''holiday'' ''two weeks'' (Some dueInDecember) (Some 1200)
          (initialState 0)) = Done \<and>
   readyToAssign afterGoal = 0 \<and>
   incomeTotal afterGoal = 0 \<and>
   budgetedTotal afterGoal = 1200 \<and>
   paymentsTotal afterGoal = 0 \<and>
   \<not> poolInvariant afterGoal"
proof -
  let ?run = "saveGoal ''g1'' ''c9'' day5 ''holiday'' ''two weeks'' (Some dueInDecember) (Some 1200)
          (initialState 0)"
  have v: "''holiday'' \<noteq> []" "(0::rat) < 1200" "\<not> dateLe dueInDecember (startOfMonth day5)"
    by (simp_all add: dateLe_def startOfMonth_def dueInDecember_def day5_def)
  have fresh: "\<forall>m. budgeted (initialState 0) m ''c9'' = 0"
    by (simp add: budgeted_def ledger_def initialState_def emptyMonth_def assignedOr0_def)
  have run: "?run = (fst ?run, afterGoal)" by (simp add: afterGoal_def)
  have i: "readyToAssign (initialState 0) = 0" "incomeTotal (initialState 0) = 0"
    "budgetedTotal (initialState 0) = 0" "paymentsTotal (initialState 0) = 0"
    by (simp_all add: initialState_def incomeTotal_def budgetedTotal_def paymentsTotal_def
        incomeOf_simps assignedSum_simps)
  have d: "fst ?run = Done"
    using saveGoal_done [OF v, of "''g1''" "''c9''" "''two weeks''" "initialState 0"] by simp
  from saveGoal_totals [OF v fresh run] d show ?thesis
    by (simp add: i poolInvariant_def)
qed

section \<open>Available is budgeted minus activity\<close>

text \<open>
  C2, as stated, fails on the budget object with cached figures: after a transaction of
  50 is added to a category with 100 budgeted, the category has activity 50 and
  available 150, which is not \<open>100 - 50\<close>.
\<close>

theorem cached_available_adds_activity:
  "fst (addTransaction ''x1'' ''2024-01-05T10:00:00.000Z'' ''c1'' ''lunch'' (Some 50) foodBudget) = Ok \<and>
   cachedCategoryOf foodBudget ''c1'' =
     Some \<lparr>c_name = ''Food'', c_budgeted = 100, c_activity = 0, c_available = 100\<rparr> \<and>
   cachedCategoryOf afterSpend ''c1'' =
     Some \<lparr>c_name = ''Food'', c_budgeted = 100, c_activity = 50, c_available = 150\<rparr> \<and>
   signedSum (getCurrentBudget afterSpend) ''c1'' = 50 \<and>
   map_option (\<lambda>cat. c_available cat = c_budgeted cat - signedSum (getCurrentBudget afterSpend) ''c1'')
     (cachedCategoryOf afterSpend ''c1'') = Some False"
proof -
  have a: "afterSpend = foodBudget\<lparr>s_budgets :=
        [(0, \<lparr>b_categories =
                [(''c1'', \<lparr>c_name = ''Food'', c_budgeted = 100, c_activity = 50,
                           c_available = 150\<rparr>)],
              b_transactions =
                [\<lparr>t_id = ''x1'', t_categoryId = ''c1'', t_description = ''lunch'', t_amount = 50,
                  t_date = ''2024-01-05T10:00:00.000Z''\<rparr>]\<rparr>)]\<rparr>"
    by (simp add: afterSpend_def afterSpend_value)
  have ok: "fst (addTransaction ''x1'' ''2024-01-05T10:00:00.000Z'' ''c1'' ''lunch'' (Some 50)
      foodBudget) = Ok"
    by (simp add: afterSpend_value)
  have before: "cachedCategoryOf foodBudget ''c1'' =
     Some \<lparr>c_name = ''Food'', c_budgeted = 100, c_activity = 0, c_available = 100\<rparr>"
    by (simp add: cachedCategoryOf_def getCurrentBudget_def foodBudget_def)
  have after: "cachedCategoryOf afterSpend ''c1'' =
     Some \<lparr>c_name = ''Food'', c_budgeted = 100, c_activity = 50, c_available = 150\<rparr>"
    by (simp add: a cachedCategoryOf_def getCurrentBudget_def foodBudget_def)
  have sum: "signedSum (getCurrentBudget afterSpend) ''c1'' = 50"
    by (simp add: a signedSum_def getCurrentBudget_def foodBudget_def)
  show ?thesis
    by (simp add: ok before after sum)
qed

text \<open>
  C2, amended. In the ledger with typed transactions, \<open>calculateCategoryAvailable\<close>
  returns \<open>budgeted - activity\<close> for every month and category in every state, so after
  every transaction add, edit and delete; \<open>activity\<close> is the sum of the amounts of the
  expense transactions of the month with the category id. In the budget object with
  cached figures, \<open>addTransaction\<close>, \<open>editTransaction\<close> and \<open>deleteTransaction\<close> keep,
  for every month and category, the cached \<open>activity\<close> equal to the signed sum of the
  amounts of the category's transactions and the cached \<open>available\<close> equal to
  \<open>budgeted + activity\<close>.
\<close>

theorem available_is_kept:
  "fst (calculateCategoryAvailable m c s) = budgeted s m c - activity s m c \<and>
   (\<forall>s'. s' = snd (recordTransaction newId' amountIn' type dateIn descr' categoryIdIn s) \<or>
         s' = snd (saveEditedTransaction editingId dateIn amountIn' type descr' categoryIdIn s) \<or>
         s' = snd (handleDeleteTransaction editingId m' confirmed' s) \<longrightarrow>
      fst (calculateCategoryAvailable m c s') = budgeted s' m c - activity s' m c) \<and>
   (consistent b \<longrightarrow>
      consistent (snd (addTransaction newId now k descr amountIn b)) \<and>
      consistent (snd (editTransaction i descr amountIn b)) \<and>
      consistent (snd (deleteTransaction i confirmed b)))"
  by (simp add: calculateCategoryAvailable_value consistent_addTransaction
      consistent_editTransaction consistent_deleteTransaction)

theorem available_is_kept_witness:
  "consistent foodBudget \<and>
   consistent afterSpend \<and>
   consistent (snd (editTransaction ''x1'' ''dinner'' (Some 70) afterSpend)) \<and>
   consistent (snd (deleteTransaction ''x1'' True afterSpend)) \<and>
   budgeted twoTransactions 0 ''rent'' = 70 \<and>
   activity twoTransactions 0 ''rent'' = 40 \<and>
   fst (calculateCategoryAvailable 0 ''rent'' twoTransactions) = 30 \<and>
   fst (calculateCategoryAvailable 0 ''rent''
          (snd (handleDeleteTransaction ''t2'' 0 True twoTransactions))) = 70"
proof -
  let ?del = "snd (handleDeleteTransaction ''t2'' 0 True twoTransactions)"
  have c0: "consistent foodBudget"
    by (auto simp add: consistent_def consistentBudget_def foodBudget_def signedSum_def
        split: if_splits)
  from available_is_kept [where b = foodBudget and newId = "''x1''"
      and now = "''2024-01-05T10:00:00.000Z''" and k = "''c1''" and descr = "''lunch''"
      and amountIn = "Some 50"] c0
  have c1: "consistent afterSpend" by (simp add: afterSpend_def)
  have v: "budgeted twoTransactions 0 ''rent'' = 70" "activity twoTransactions 0 ''rent'' = 40"
    by (simp_all add: budgeted_def activity_def ledger_def twoTransactions_def initialState_def
        assignedOr0_def salary_def rentPaid_def)
  have d: "?del = (initialState 0)\<lparr>budgets := [(0, \<lparr>mcategories = [(''rent'', 70)],
        transactions = [salary]\<rparr>)], readyToAssign := 30\<rparr>"
    by (simp add: handleDeleteTransaction_def twoTransactions_def initialState_def salary_def
        rentPaid_def splice1_def setMonthData_def renderUI_def getMonthData_def Let_def)
  have w: "budgeted ?del 0 ''rent'' = 70" "activity ?del 0 ''rent'' = 0"
    by (simp_all add: d budgeted_def activity_def ledger_def initialState_def assignedOr0_def
        salary_def)
  from available_is_kept [where m = 0 and c = "''rent''" and s = twoTransactions
      and editingId = "''t2''" and m' = 0 and confirmed' = True
      and b = afterSpend and descr = "''dinner''" and amountIn = "Some 70" and i = "''x1''"
      and confirmed = True] c0 c1
  show ?thesis by (simp add: v w)
qed

section \<open>Allocations are guarded by the pool\<close>

text \<open>
  C3. Let \<open>delta\<close> be the new assigned amount minus the old one. If \<open>delta\<close> exceeds
  \<open>readyToAssign\<close>, \<open>setAllocation\<close> is rejected and leaves the pool, every ledger (all
  allocations and transactions), the debts, the goals and the categories as they were;
  the state is the very same when the month was on display with a ledger. Otherwise it
  succeeds, the allocation is the new amount, no other allocation changes, the pool
  goes down by exactly \<open>delta\<close> and is not negative afterwards. After a sequence of
  calls the pool is its initial value minus the sum of the applied deltas, and a pool
  that was not negative is not negative at the end.
\<close>

theorem setAllocation_pool_guard:
  "(readyToAssign s < newBudgeted - budgeted s m c \<longrightarrow>
      fst (setAllocation m c newBudgeted s) = Rejected InsufficientFunds \<and>
      readyToAssign (snd (setAllocation m c newBudgeted s)) = readyToAssign s \<and>
      (\<forall>m' c'. allocation (snd (setAllocation m c newBudgeted s)) m' c' = allocation s m' c') \<and>
      (\<forall>m'. ledger (snd (setAllocation m c newBudgeted s)) m' = ledger s m') \<and>
      debtList (snd (setAllocation m c newBudgeted s)) = debtList s \<and>
      goals (snd (setAllocation m c newBudgeted s)) = goals s \<and>
      categories (snd (setAllocation m c newBudgeted s)) = categories s \<and>
      (currentMonth s = m \<and> map_of (budgets s) m \<noteq> None \<longrightarrow>
         snd (setAllocation m c newBudgeted s) = s))
   \<and> (\<not> readyToAssign s < newBudgeted - budgeted s m c \<longrightarrow>
      fst (setAllocation m c newBudgeted s) = Done \<and>
      allocation (snd (setAllocation m c newBudgeted s)) m c = Some newBudgeted \<and>
      (\<forall>m' c'. (m', c') \<noteq> (m, c) \<longrightarrow>
         allocation (snd (setAllocation m c newBudgeted s)) m' c' = allocation s m' c') \<and>
      readyToAssign (snd (setAllocation m c newBudgeted s)) =
        readyToAssign s - (newBudgeted - budgeted s m c) \<and>
      0 \<le> readyToAssign (snd (setAllocation m c newBudgeted s)))
   \<and> readyToAssign (snd (setAllocations calls s)) =
        readyToAssign s - sum_list (fst (setAllocations calls s))
   \<and> (0 \<le> readyToAssign s \<longrightarrow> 0 \<le> readyToAssign (snd (setAllocations calls s)))"
proof (intro conjI impI)
  assume rej: "readyToAssign s < newBudgeted - budgeted s m c"
  note r = setAllocation_rejected [OF rej]
  show "fst (setAllocation m c newBudgeted s) = Rejected InsufficientFunds"
    by (simp add: r)
  show "readyToAssign (snd (setAllocation m c newBudgeted s)) = readyToAssign s"
    by (simp add: r getMonthData_frame)
  show "\<forall>m' c'. allocation (snd (setAllocation m c newBudgeted s)) m' c' = allocation s m' c'"
    by (simp add: r allocation_def getMonthData_ledger)
  show "\<forall>m'. ledger (snd (setAllocation m c newBudgeted s)) m' = ledger s m'"
    by (simp add: r getMonthData_ledger)
  show "debtList (snd (setAllocation m c newBudgeted s)) = debtList s"
    by (simp add: r getMonthData_frame)
  show "goals (snd (setAllocation m c newBudgeted s)) = goals s"
    by (simp add: r getMonthData_frame)
  show "categories (snd (setAllocation m c newBudgeted s)) = categories s"
    by (simp add: r getMonthData_frame)
  show "snd (setAllocation m c newBudgeted s) = s"
    if "currentMonth s = m \<and> map_of (budgets s) m \<noteq> None"
  proof -
    from that have "s\<lparr>currentMonth := m\<rparr> = s" by auto
    with that show ?thesis by (simp add: r getMonthData_present)
  qed
next
  assume acc: "\<not> readyToAssign s < newBudgeted - budgeted s m c"
  note d = setAllocation_done [OF acc]
  show "fst (setAllocation m c newBudgeted s) = Done"
    by (simp add: d)
  show "allocation (snd (setAllocation m c newBudgeted s)) m c = Some newBudgeted"
    by (simp add: d allocation_def renderUI_ledger setMonthData_ledger setAssigned_lookup)
  show "\<forall>m' c'. (m', c') \<noteq> (m, c) \<longrightarrow>
         allocation (snd (setAllocation m c newBudgeted s)) m' c' = allocation s m' c'"
    by (simp add: d allocation_def renderUI_ledger setMonthData_ledger setAssigned_lookup
        getMonthData_ledger)
  show "readyToAssign (snd (setAllocation m c newBudgeted s)) =
        readyToAssign s - (newBudgeted - budgeted s m c)"
    by (simp add: d renderUI_frame)
  from acc show "0 \<le> readyToAssign (snd (setAllocation m c newBudgeted s))"
    by (simp add: d renderUI_frame)
next
  show "readyToAssign (snd (setAllocations calls s)) =
        readyToAssign s - sum_list (fst (setAllocations calls s))"
    by (rule setAllocations_pool)
next
  assume "0 \<le> readyToAssign s"
  then show "0 \<le> readyToAssign (snd (setAllocations calls s))"
    by (rule setAllocations_nonneg)
qed

theorem setAllocation_pool_guard_witness:
  "fst (setAllocation 0 ''rent'' 150 poolOf100) = Rejected InsufficientFunds \<and>
   readyToAssign (snd (setAllocation 0 ''rent'' 150 poolOf100)) = 100 \<and>
   fst (setAllocation 0 ''rent'' 60 poolOf100) = Done \<and>
   allocation (snd (setAllocation 0 ''rent'' 60 poolOf100)) 0 ''rent'' = Some 60 \<and>
   readyToAssign (snd (setAllocation 0 ''rent'' 60 poolOf100)) = 40 \<and>
   fst (setAllocations [(0, ''rent'', 60), (1, ''food'', 50), (0, ''rent'', 20)] poolOf100)
     = [60, - 40] \<and>
   readyToAssign
     (snd (setAllocations [(0, ''rent'', 60), (1, ''food'', 50), (0, ''rent'', 20)] poolOf100))
     = 80"
proof -
  have b: "budgeted poolOf100 0 ''rent'' = 0" "readyToAssign poolOf100 = 100"
    by (simp_all add: poolOf100_def initialState_def budgeted_def ledger_def assignedOr0_def
        emptyMonth_def)
  have rej: "readyToAssign poolOf100 < 150 - budgeted poolOf100 0 ''rent''"
    and acc: "\<not> readyToAssign poolOf100 < 60 - budgeted poolOf100 0 ''rent''"
    and pos: "0 \<le> readyToAssign poolOf100"
    by (simp_all add: b)
  have run: "fst (setAllocations [(0, ''rent'', 60), (1, ''food'', 50), (0, ''rent'', 20)]
      poolOf100) = [60, - 40]"
    by (simp add: poolOf100_def initialState_def budgeted_def ledger_def assignedOr0_def
        emptyMonth_def setAllocation_def updateCategoryAssigned_def getMonthData_def
        setMonthData_def setAssigned_def renderUI_def)
  from setAllocation_pool_guard [of poolOf100 150 0 "''rent''"
      "[(0, ''rent'', 60), (1, ''food'', 50), (0, ''rent'', 20)]"]
    setAllocation_pool_guard [of poolOf100 60 0 "''rent''" "[]"] rej acc pos run
  show ?thesis by (simp add: b)
qed

section \<open>Duplicate detection\<close>

text \<open>
  C4. The claim is that a new transaction is flagged when the ledger of its own month
  holds one of the same date, amount and description. The code reads the ledger of the
  month on display instead. With February on display, a second rent payment of
  10 February is flagged and the state is unchanged. With January on display the same
  second payment is not flagged: it is inserted, and the ledger of February then holds
  two transactions of the same date, amount and description.
\<close>

theorem duplicate_checked_in_displayed_month:
  "fst (recordTransaction ''t1'' (Some 50) Expense (Some feb10) ''rent'' ''c1'' (initialState 1))
     = Done \<and>
   transactions (ledger afterFirstRent 1) = [rentOf ''t1''] \<and>
   recordTransaction ''t2'' (Some 50) Expense (Some feb10) ''rent'' ''c1'' afterFirstRent
     = (DuplicateWarning, afterFirstRent) \<and>
   currentMonth backInJanuary = 0 \<and>
   transactions (ledger backInJanuary 1) = [rentOf ''t1''] \<and>
   sameTransaction (rentOf ''t2'') (rentOf ''t1'') \<and>
   fst (recordTransaction ''t2'' (Some 50) Expense (Some feb10) ''rent'' ''c1'' backInJanuary)
     = Done \<and>
   transactions
     (ledger (snd (recordTransaction ''t2'' (Some 50) Expense (Some feb10) ''rent'' ''c1''
        backInJanuary)) 1) = [rentOf ''t1'', rentOf ''t2'']"
proof -
  have a: "recordTransaction ''t1'' (Some 50) Expense (Some feb10) ''rent'' ''c1'' (initialState 1)
     = (Done, (initialState 1)\<lparr>budgets := [(1, \<lparr>mcategories = [],
          transactions = [rentOf ''t1'']\<rparr>)]\<rparr>)"
    by (simp add: recordTransaction_def initialState_def getMonthData_def
        isDuplicateTransaction_def insertTransaction_def setMonthData_def pushTransaction_def
        updateReadyToAssign_def emptyMonth_def rentOf_def feb10_def Let_def renderUI_def)
  have s1: "afterFirstRent = (initialState 1)\<lparr>budgets := [(1, \<lparr>mcategories = [],
          transactions = [rentOf ''t1'']\<rparr>)]\<rparr>"
    by (simp add: afterFirstRent_def a)
  have same: "sameTransaction (rentOf ''t2'') (rentOf ''t1'')"
    by (simp add: sameTransaction_def rentOf_def)
  have b: "recordTransaction ''t2'' (Some 50) Expense (Some feb10) ''rent'' ''c1'' afterFirstRent
     = (DuplicateWarning, afterFirstRent)"
    by (simp add: s1 recordTransaction_def initialState_def getMonthData_def
        isDuplicateTransaction_def sameTransaction_def rentOf_def feb10_def Let_def)
  have s2: "backInJanuary = (initialState 0)\<lparr>budgets := [(1, \<lparr>mcategories = [],
          transactions = [rentOf ''t1'']\<rparr>), (0, emptyMonth)]\<rparr>"
    by (simp add: backInJanuary_def prevMonthBtn_def s1 renderUI_def getMonthData_def
        initialState_def)
  have c: "recordTransaction ''t2'' (Some 50) Expense (Some feb10) ''rent'' ''c1'' backInJanuary
     = (Done, (initialState 0)\<lparr>budgets := [(1, \<lparr>mcategories = [],
          transactions = [rentOf ''t1'', rentOf ''t2'']\<rparr>), (0, emptyMonth)]\<rparr>)"
    by (simp add: s2 recordTransaction_def initialState_def getMonthData_def
        isDuplicateTransaction_def insertTransaction_def setMonthData_def pushTransaction_def
        updateReadyToAssign_def emptyMonth_def rentOf_def feb10_def Let_def renderUI_def)
  have l1: "transactions (ledger afterFirstRent 1) = [rentOf ''t1'']"
    by (simp add: s1 ledger_def)
  have l2: "currentMonth backInJanuary = 0" "transactions (ledger backInJanuary 1) = [rentOf ''t1'']"
    by (simp_all add: s2 ledger_def initialState_def)
  have l3: "transactions
     (ledger (snd (recordTransaction ''t2'' (Some 50) Expense (Some feb10) ''rent'' ''c1''
        backInJanuary)) 1) = [rentOf ''t1'', rentOf ''t2'']"
    by (simp add: c ledger_def)
  have c1: "fst (recordTransaction ''t2'' (Some 50) Expense (Some feb10) ''rent'' ''c1''
      backInJanuary) = Done"
    by (simp add: c)
  show ?thesis
    by (simp add: a b c1 l1 l2 l3 same)
qed

section \<open>Debt payments\<close>

text \<open>
  C5, as stated, fails in two places.

  The category is not created once and reused thereafter. The lookup of lines 1093-1095
  accepts only an \<^emph>\<open>active\<close> category named \<open>Debt Payments\<close>, and deleting a category
  (lines 408-419) deactivates it. In the example document the first payment creates the
  category \<open>c1\<close>; after \<open>c1\<close> is deleted the second payment creates a second category of
  that name, \<open>c2\<close>, and its transaction is filed under \<open>c2\<close>.

  The transaction is pushed on the ledger of the month on display (line 1102), while its date
  is today's (line 1105). With month 2 on display, a payment made on day 5 of month 0 is
  stored in the ledger of month 2, and the ledger of month 0, the month of its date, has no
  transaction.
\<close>

theorem debt_payments_category_created_twice:
  "categories afterPayment = [(''c1'', debtPaymentsCategory day5)] \<and>
   categories afterCategoryDeleted = [(''c1'', (debtPaymentsCategory day5)\<lparr>isActive := False\<rparr>)] \<and>
   fst (recordPayment ''c2'' ''p2'' day5 ''d1'' (Some 50) afterCategoryDeleted) = Done \<and>
   categories afterSecondPayment =
     [(''c1'', (debtPaymentsCategory day5)\<lparr>isActive := False\<rparr>),
      (''c2'', debtPaymentsCategory day5)] \<and>
   map cname (map snd (categories afterSecondPayment)) = [''Debt Payments'', ''Debt Payments''] \<and>
   map categoryId (transactions (ledger afterSecondPayment 0)) = [Some ''c1'', Some ''c2''] \<and>
   currentMonth laterMonthOnDisplay = 2 \<and>
   monthOf day5 = 0 \<and>
   fst (recordPayment ''c1'' ''p1'' day5 ''d1'' (Some 100) laterMonthOnDisplay) = Done \<and>
   transactions (ledger paidWithLaterMonthOnDisplay 2) =
     [paymentTransaction ''p1'' day5 100 cardDebt ''c1''] \<and>
   tdate (paymentTransaction ''p1'' day5 100 cardDebt ''c1'') = day5 \<and>
   transactions (ledger paidWithLaterMonthOnDisplay 0) = []"
proof -
  let ?off = "(debtPaymentsCategory day5)\<lparr>isActive := False\<rparr>"
  have deleted: "afterCategoryDeleted =
     \<lparr>budgets = [(0, \<lparr>mcategories = [],
          transactions = [paymentTransaction ''p1'' day5 100 cardDebt ''c1'']\<rparr>)],
      debtList = [payDebt day5 100 cardDebt], goals = [],
      categories = [(''c1'', ?off)], currentMonth = 0, readyToAssign = 100\<rparr>"
    by (simp add: afterCategoryDeleted_def afterPayment_value handleDeleteCategory_def
        renderUI_def getMonthData_def)
  have second: "recordPayment ''c2'' ''p2'' day5 ''d1'' (Some 50) afterCategoryDeleted =
     (Done,
      \<lparr>budgets = [(0, \<lparr>mcategories = [],
          transactions = [paymentTransaction ''p1'' day5 100 cardDebt ''c1'',
            paymentTransaction ''p2'' day5 50 (payDebt day5 100 cardDebt) ''c2'']\<rparr>)],
       debtList = [payDebt day5 50 (payDebt day5 100 cardDebt)], goals = [],
       categories = [(''c1'', ?off), (''c2'', debtPaymentsCategory day5)],
       currentMonth = 0, readyToAssign = 50\<rparr>)"
    by (simp add: deleted recordPayment_def payDebt_def cardDebt_def findDebtPaymentCategory_def
        addPersistentCategory_def getMonthData_def setMonthData_def pushTransaction_def
        renderUI_def paymentTransaction_def debtPaymentsCategory_def Let_def)
  have a: "categories afterPayment = [(''c1'', debtPaymentsCategory day5)]"
    by (simp add: afterPayment_value)
  have b: "categories afterCategoryDeleted = [(''c1'', ?off)]"
    by (simp add: deleted)
  have c: "fst (recordPayment ''c2'' ''p2'' day5 ''d1'' (Some 50) afterCategoryDeleted) = Done"
    by (simp add: second)
  have d: "categories afterSecondPayment =
      [(''c1'', ?off), (''c2'', debtPaymentsCategory day5)]"
    by (simp add: afterSecondPayment_def second)
  have e: "map cname (map snd (categories afterSecondPayment)) =
      [''Debt Payments'', ''Debt Payments'']"
    by (simp add: d debtPaymentsCategory_def)
  have f: "map categoryId (transactions (ledger afterSecondPayment 0)) = [Some ''c1'', Some ''c2'']"
    by (simp add: afterSecondPayment_def second ledger_def paymentTransaction_def)
  have later: "laterMonthOnDisplay =
     \<lparr>budgets = [(0, emptyMonth), (1, emptyMonth), (2, emptyMonth)], debtList = [cardDebt],
      goals = [], categories = [], currentMonth = 2, readyToAssign = 200\<rparr>"
    by (simp add: laterMonthOnDisplay_def nextMonthBtn_def withDebt_def initialState_def
        renderUI_def getMonthData_def)
  have g: "currentMonth laterMonthOnDisplay = 2"
    by (simp add: later)
  have h: "monthOf day5 = 0"
    by (simp add: day5_def)
  have paid: "recordPayment ''c1'' ''p1'' day5 ''d1'' (Some 100) laterMonthOnDisplay =
     (Done,
      \<lparr>budgets = [(0, emptyMonth), (1, emptyMonth),
         (2, \<lparr>mcategories = [],
            transactions = [paymentTransaction ''p1'' day5 100 cardDebt ''c1'']\<rparr>)],
       debtList = [payDebt day5 100 cardDebt], goals = [],
       categories = [(''c1'', debtPaymentsCategory day5)],
       currentMonth = 2, readyToAssign = 100\<rparr>)"
    by (simp add: later recordPayment_def cardDebt_def findDebtPaymentCategory_def
        addPersistentCategory_def getMonthData_def setMonthData_def pushTransaction_def
        renderUI_def emptyMonth_def paymentTransaction_def debtPaymentsCategory_def Let_def)
  have i: "fst (recordPayment ''c1'' ''p1'' day5 ''d1'' (Some 100) laterMonthOnDisplay) = Done"
    by (simp add: paid)
  have j: "transactions (ledger paidWithLaterMonthOnDisplay 2) =
      [paymentTransaction ''p1'' day5 100 cardDebt ''c1'']"
    by (simp add: paidWithLaterMonthOnDisplay_def paid ledger_def)
  have k: "tdate (paymentTransaction ''p1'' day5 100 cardDebt ''c1'') = day5"
    by (simp add: paymentTransaction_def)
  have l: "transactions (ledger paidWithLaterMonthOnDisplay 0) = []"
    by (simp add: paidWithLaterMonthOnDisplay_def paid ledger_def emptyMonth_def)
  from a b c d e f g h i j k l show ?thesis by simp
qed

text \<open>
  C5, amended. Let \<open>amt > 0\<close> and let the selected debt exist, at index \<open>i\<close> of \<open>debtList\<close>. If
  \<open>amt\<close> exceeds \<open>readyToAssign\<close>, the payment is rejected and the state is the same.
  Otherwise the debt's \<open>currentBalance\<close> becomes \<open>max 0 (currentBalance - amt)\<close>, the
  full amount is appended to its \<open>paymentHistory\<close>, \<open>readyToAssign\<close> goes down by the
  full amount, and one expense transaction for \<open>amt\<close>, dated today, is appended to one
  monthly ledger, every other ledger and every allocation staying as it was; when the month on
  display is today's month, it is the ledger of today's month. The transaction is filed under
  the category \<open>k\<close>: the first active category named \<open>Debt Payments\<close> when there is one (then
  the categories are unchanged), a newly created one otherwise. After the payment \<open>k\<close> is the
  category the lookup finds, and it stays so through any run of further clicks on the payment
  form, which leaves the categories as they are: until a category is deactivated or edited,
  the later payments are filed under \<open>k\<close> and create no category.
\<close>

theorem recordPayment_effect:
  assumes pos: "0 < amt"
    and debt: "findIndex (\<lambda>d. did d = debtId) (debtList s) = Some i"
    and k: "k = (case findDebtPaymentCategory (categories s) of Some k0 \<Rightarrow> k0 | None \<Rightarrow> newCat)"
    and run: "recordPayment newCat newTx today debtId (Some amt) s = (r, s')"
  shows "(readyToAssign s < amt \<longrightarrow> r = Rejected InsufficientFunds \<and> s' = s) \<and>
    (\<not> readyToAssign s < amt \<longrightarrow>
       r = Done \<and>
       i < length (debtList s) \<and> did (debtList s ! i) = debtId \<and>
       debtList s' = (debtList s)[i := payDebt today amt (debtList s ! i)] \<and>
       currentBalance (debtList s' ! i) = max 0 (currentBalance (debtList s ! i) - amt) \<and>
       paymentHistory (debtList s' ! i) =
         paymentHistory (debtList s ! i) @ [\<lparr>pdate = today, pamount = amt\<rparr>] \<and>
       readyToAssign s' = readyToAssign s - amt \<and>
       (\<exists>m. transactions (ledger s' m) =
              transactions (ledger s m) @
                [paymentTransaction newTx today amt (debtList s ! i) k] \<and>
            (\<forall>m'. m' \<noteq> m \<longrightarrow> ledger s' m' = ledger s m')) \<and>
       (currentMonth s = monthOf today \<longrightarrow>
          transactions (ledger s' (monthOf today)) =
            transactions (ledger s (monthOf today)) @
              [paymentTransaction newTx today amt (debtList s ! i) k]) \<and>
       (\<forall>m. mcategories (ledger s' m) = mcategories (ledger s m)) \<and>
       (findDebtPaymentCategory (categories s) \<noteq> None \<longrightarrow> categories s' = categories s) \<and>
       (findDebtPaymentCategory (categories s) = None \<longrightarrow>
          categories s' = AList.update newCat (debtPaymentsCategory today) (categories s)) \<and>
       findDebtPaymentCategory (categories s') = Some k \<and>
       (\<forall>clicks. categories (recordPayments clicks s') = categories s' \<and>
          findDebtPaymentCategory (categories (recordPayments clicks s')) = Some k) \<and>
       goals s' = goals s \<and> currentMonth s' = currentMonth s)"
proof (intro conjI impI)
  assume "readyToAssign s < amt"
  from recordPayment_rejected [OF this pos, of newCat newTx today debtId] run
  show "r = Rejected InsufficientFunds" and "s' = s" by simp_all
next
  assume acc: "\<not> readyToAssign s < amt"
  note res = recordPayment_done [OF acc pos debt, of newCat newTx today, folded k]
  from findIndex_Some [OF debt] show len: "i < length (debtList s)"
    and "did (debtList s ! i) = debtId" by simp_all
  from run res show "r = Done" by simp
  from run res have s': "s' = renderUI ((setMonthData (currentMonth s)
        (pushTransaction (paymentTransaction newTx today amt (debtList s ! i) k)
           (ledger s (currentMonth s)))
        (snd (getMonthData (currentMonth s)
           (s\<lparr>debtList := (debtList s)[i := payDebt today amt (debtList s ! i)],
              categories :=
                (case findDebtPaymentCategory (categories s) of
                   Some k \<Rightarrow> categories s
                 | None \<Rightarrow> AList.update newCat (debtPaymentsCategory today) (categories s))\<rparr>))))
     \<lparr>readyToAssign := readyToAssign s - amt\<rparr>)"
    by simp
  show dl: "debtList s' = (debtList s)[i := payDebt today amt (debtList s ! i)]"
    by (simp add: s' renderUI_frame setMonthData_frame getMonthData_frame)
  from len show "currentBalance (debtList s' ! i) = max 0 (currentBalance (debtList s ! i) - amt)"
    by (simp add: dl payDebt_fields)
  from len show "paymentHistory (debtList s' ! i) =
         paymentHistory (debtList s ! i) @ [\<lparr>pdate = today, pamount = amt\<rparr>]"
    by (simp add: dl payDebt_fields)
  show "readyToAssign s' = readyToAssign s - amt"
    by (simp add: s' renderUI_frame)
  have led: "ledger s' m = (if m = currentMonth s
      then pushTransaction (paymentTransaction newTx today amt (debtList s ! i) k)
           (ledger s (currentMonth s))
      else ledger s m)" for m
    by (simp add: s' renderUI_ledger setMonthData_ledger getMonthData_ledger)
  have here: "transactions (ledger s' (currentMonth s)) =
         transactions (ledger s (currentMonth s)) @
           [paymentTransaction newTx today amt (debtList s ! i) k]"
    by (simp add: led pushTransaction_fields)
  have others: "\<forall>m'. m' \<noteq> currentMonth s \<longrightarrow> ledger s' m' = ledger s m'"
    by (simp add: led)
  from here others
  show "\<exists>m. transactions (ledger s' m) =
              transactions (ledger s m) @
                [paymentTransaction newTx today amt (debtList s ! i) k] \<and>
            (\<forall>m'. m' \<noteq> m \<longrightarrow> ledger s' m' = ledger s m')"
    by blast
  show "transactions (ledger s' (monthOf today)) =
            transactions (ledger s (monthOf today)) @
              [paymentTransaction newTx today amt (debtList s ! i) k]"
    if "currentMonth s = monthOf today"
    using here by (simp add: that)
  show "\<forall>m. mcategories (ledger s' m) = mcategories (ledger s m)"
    by (simp add: led pushTransaction_fields)
  have cats: "categories s' = (case findDebtPaymentCategory (categories s) of
                   Some k \<Rightarrow> categories s
                 | None \<Rightarrow> AList.update newCat (debtPaymentsCategory today) (categories s))"
    by (simp add: s' renderUI_frame setMonthData_frame getMonthData_frame)
  show "categories s' = categories s" if "findDebtPaymentCategory (categories s) \<noteq> None"
    using that by (auto simp add: cats)
  show "categories s' = AList.update newCat (debtPaymentsCategory today) (categories s)"
    if "findDebtPaymentCategory (categories s) = None"
    using that by (simp add: cats)
  show found: "findDebtPaymentCategory (categories s') = Some k"
    by (cases "findDebtPaymentCategory (categories s)")
       (simp_all add: cats k findDebtPaymentCategory_created)
  show "\<forall>clicks. categories (recordPayments clicks s') = categories s' \<and>
          findDebtPaymentCategory (categories (recordPayments clicks s')) = Some k"
    by (simp add: recordPayments_categories_kept [OF found] found)
  show "goals s' = goals s" and "currentMonth s' = currentMonth s"
    by (simp_all add: s' renderUI_frame setMonthData_frame getMonthData_frame)
qed

theorem recordPayment_effect_witness:
  "fst (recordPayment ''c1'' ''p1'' day5 ''d1'' (Some 300) withDebt) = Rejected InsufficientFunds \<and>
   snd (recordPayment ''c1'' ''p1'' day5 ''d1'' (Some 300) withDebt) = withDebt \<and>
   fst (recordPayment ''c1'' ''p1'' day5 ''d1'' (Some 100) withDebt) = Done \<and>
   currentBalance (debtList afterPayment ! 0) = 0 \<and>
   paymentHistory (debtList afterPayment ! 0) = [\<lparr>pdate = day5, pamount = 100\<rparr>] \<and>
   readyToAssign afterPayment = 100 \<and>
   transactions (ledger afterPayment 0) = [paymentTransaction ''p1'' day5 100 cardDebt ''c1''] \<and>
   categories afterPayment = [(''c1'', debtPaymentsCategory day5)] \<and>
   fst (recordPayment ''c2'' ''p2'' day5 ''d1'' (Some 50) afterPayment) = Done \<and>
   categories (snd (recordPayment ''c2'' ''p2'' day5 ''d1'' (Some 50) afterPayment)) =
     [(''c1'', debtPaymentsCategory day5)] \<and>
   transactions (ledger (snd (recordPayment ''c2'' ''p2'' day5 ''d1'' (Some 50) afterPayment)) 0) =
     [paymentTransaction ''p1'' day5 100 cardDebt ''c1'',
      paymentTransaction ''p2'' day5 50 (payDebt day5 100 cardDebt) ''c1''] \<and>
   readyToAssign (snd (recordPayment ''c2'' ''p2'' day5 ''d1'' (Some 50) afterPayment)) = 50 \<and>
   categories (recordPayments
       [(''c2'', ''p2'', day5, ''d1'', Some 50), (''c3'', ''p3'', day3next, ''d1'', Some 20),
        (''c4'', ''p4'', day3next, ''d2'', None)] afterPayment) =
     [(''c1'', debtPaymentsCategory day5)]"
proof -
  let ?rej = "recordPayment ''c1'' ''p1'' day5 ''d1'' (Some 300) withDebt"
  let ?one = "recordPayment ''c1'' ''p1'' day5 ''d1'' (Some 100) withDebt"
  let ?two = "recordPayment ''c2'' ''p2'' day5 ''d1'' (Some 50) afterPayment"
  have w: "debtList withDebt = [cardDebt]" "readyToAssign withDebt = 200"
    "categories withDebt = []" "currentMonth withDebt = 0"
    "transactions (ledger withDebt 0) = []"
    by (simp_all add: withDebt_def initialState_def ledger_def emptyMonth_def)
  have today: "monthOf day5 = 0"
    by (simp add: day5_def)
  have c: "did cardDebt = ''d1''" "currentBalance cardDebt = 80" "paymentHistory cardDebt = []"
    by (simp_all add: cardDebt_def)
  have ix: "findIndex (\<lambda>d. did d = ''d1'') (debtList withDebt) = Some 0"
    by (simp add: w c)
  have k1: "''c1'' = (case findDebtPaymentCategory (categories withDebt) of
      Some k0 \<Rightarrow> k0 | None \<Rightarrow> ''c1'')"
    by (simp add: w findDebtPaymentCategory_def)
  have none: "findDebtPaymentCategory (categories withDebt) = None"
    by (simp add: w findDebtPaymentCategory_def)
  have rej: "?rej = (fst ?rej, snd ?rej)" and one: "?one = (fst ?one, afterPayment)"
    and two: "?two = (fst ?two, snd ?two)"
    by (simp_all add: afterPayment_def)
  note r1 = recordPayment_effect [OF _ ix k1 rej]
  note r2 = recordPayment_effect [OF _ ix k1 one]
  from r1 have a: "fst ?rej = Rejected InsufficientFunds \<and> snd ?rej = withDebt"
    by (simp add: w)
  have fd: "findDebtPaymentCategory [(''c1'', debtPaymentsCategory day5)] = Some ''c1''"
    by (simp add: findDebtPaymentCategory_def debtPaymentsCategory_def)
  from r2 none have b: "fst ?one = Done"
    "debtList afterPayment = [payDebt day5 100 cardDebt]"
    "currentBalance (debtList afterPayment ! 0) = 0"
    "paymentHistory (debtList afterPayment ! 0) = [\<lparr>pdate = day5, pamount = 100\<rparr>]"
    "readyToAssign afterPayment = 100"
    "transactions (ledger afterPayment 0) = [paymentTransaction ''p1'' day5 100 cardDebt ''c1'']"
    "categories afterPayment = [(''c1'', debtPaymentsCategory day5)]"
    "findDebtPaymentCategory (categories afterPayment) = Some ''c1''"
    "currentMonth afterPayment = 0"
    by (simp_all add: w c today payDebt_fields fd)
  from r2 have e: "categories (recordPayments
       [(''c2'', ''p2'', day5, ''d1'', Some 50), (''c3'', ''p3'', day3next, ''d1'', Some 20),
        (''c4'', ''p4'', day3next, ''d2'', None)] afterPayment) = categories afterPayment"
    by (simp add: w del: recordPayments.simps)
  have ix2: "findIndex (\<lambda>d. did d = ''d1'') (debtList afterPayment) = Some 0"
    by (simp add: b payDebt_fields c)
  have k2: "''c1'' = (case findDebtPaymentCategory (categories afterPayment) of
      Some k0 \<Rightarrow> k0 | None \<Rightarrow> ''c2'')"
    by (simp add: b fd)
  from recordPayment_effect [OF _ ix2 k2 two] b(8)
  have d: "fst ?two = Done"
    "categories (snd ?two) = [(''c1'', debtPaymentsCategory day5)]"
    "transactions (ledger (snd ?two) 0) =
     [paymentTransaction ''p1'' day5 100 cardDebt ''c1'',
      paymentTransaction ''p2'' day5 50 (payDebt day5 100 cardDebt) ''c1'']"
    "readyToAssign (snd ?two) = 50"
    by (simp_all add: b today payDebt_fields)
  from a b d e show ?thesis by (simp del: recordPayments.simps)
qed

section \<open>Creating a goal\<close>

text \<open>
  C6. For a valid goal (a name, a positive total, a due date after the first day of
  today's month) the form succeeds; \<open>monthsBetween\<close>, the difference in calendar months
  between the due date and the start of today's month plus one, is at least 1; the goal
  appended has \<open>monthlyContribution = totalAmount / monthsBetween\<close>; the backing category
  has that amount assigned in each of the \<open>monthsBetween\<close> consecutive months starting
  at today's month, and in no other month does its allocation change; no other
  allocation and no transaction changes; and \<open>readyToAssign\<close> is left as it was.
\<close>

theorem saveGoal_schedule:
  assumes valid: "name \<noteq> []" "0 < total'" "\<not> dateLe due (startOfMonth today)"
    and months: "monthsBetween = differenceInCalendarMonths due (startOfMonth today) + 1"
    and run: "saveGoal goalId newCat today name descr (Some due) (Some total') s = (r, s')"
  shows "r = Done \<and> 1 \<le> monthsBetween \<and>
    goals s' = goals s @ [newGoal goalId name descr due total' monthsBetween] \<and>
    monthlyContribution (last (goals s')) = total' / of_int monthsBetween \<and>
    (\<forall>m. monthOf today \<le> m \<and> m < monthOf today + monthsBetween \<longrightarrow>
       allocation s' m newCat = Some (total' / of_int monthsBetween)) \<and>
    (\<forall>m. \<not> (monthOf today \<le> m \<and> m < monthOf today + monthsBetween) \<longrightarrow>
       allocation s' m newCat = allocation s m newCat) \<and>
    (\<forall>m c. c \<noteq> newCat \<longrightarrow> allocation s' m c = allocation s m c) \<and>
    (\<forall>m. transactions (ledger s' m) = transactions (ledger s m)) \<and>
    readyToAssign s' = readyToAssign s \<and>
    map_of (categories s') newCat = Some (goalCategory name today) \<and>
    debtList s' = debtList s"
proof -
  from months have mb: "monthsBetween = monthOf due - monthOf today + 1"
    by (simp add: differenceInCalendarMonths_def startOfMonth_def)
  from monthsBetween_positive [OF valid(3)] mb have pos: "1 \<le> monthsBetween" by simp
  note res = saveGoal_done [OF valid, of goalId newCat descr s, folded mb]
  from run res have r: "r = Done" by simp
  from run res have s': "s' = renderUI (assignGoalMonths newCat (total' / of_int monthsBetween)
       (monthOf today) (nat monthsBetween)
       (s\<lparr>goals := goals s @ [newGoal goalId name descr due total' monthsBetween],
          categories := AList.update newCat (goalCategory name today) (categories s)\<rparr>))"
    by simp
  from pos have led: "ledger s' m =
     (if monthOf today \<le> m \<and> m < monthOf today + monthsBetween
      then setAssigned newCat (total' / of_int monthsBetween) (ledger s m) else ledger s m)" for m
    by (simp add: s' renderUI_ledger assignGoalMonths_ledger)
  have g: "goals s' = goals s @ [newGoal goalId name descr due total' monthsBetween]"
    by (simp add: s' renderUI_frame assignGoalMonths_frame)
  have c: "map_of (categories s') newCat = Some (goalCategory name today)"
    by (simp add: s' renderUI_frame assignGoalMonths_frame update_conv')
  have f: "readyToAssign s' = readyToAssign s" "debtList s' = debtList s"
    by (simp_all add: s' renderUI_frame assignGoalMonths_frame)
  from r pos g c f show ?thesis
    by (simp add: led allocation_def setAssigned_lookup setAssigned_transactions newGoal_def)
qed

theorem saveGoal_schedule_witness:
  "fst (saveGoal ''g1'' ''c9'' day5 ''holiday'' ''two weeks'' (Some dueInDecember) (Some 1200)
          (initialState 0)) = Done \<and>
   differenceInCalendarMonths dueInDecember (startOfMonth day5) + 1 = 12 \<and>
   monthlyContribution (last (goals afterGoal)) = 100 \<and>
   allocation afterGoal 0 ''c9'' = Some 100 \<and>
   allocation afterGoal 11 ''c9'' = Some 100 \<and>
   allocation afterGoal (- 1) ''c9'' = None \<and>
   allocation afterGoal 12 ''c9'' = None \<and>
   readyToAssign afterGoal = 0"
proof -
  let ?run = "saveGoal ''g1'' ''c9'' day5 ''holiday'' ''two weeks'' (Some dueInDecember) (Some 1200)
          (initialState 0)"
  have v: "''holiday'' \<noteq> []" "(0::rat) < 1200" "\<not> dateLe dueInDecember (startOfMonth day5)"
    by (simp_all add: dateLe_def startOfMonth_def dueInDecember_def day5_def)
  have m: "12 = differenceInCalendarMonths dueInDecember (startOfMonth day5) + 1"
    by (simp add: differenceInCalendarMonths_def startOfMonth_def dueInDecember_def day5_def)
  have run: "?run = (fst ?run, afterGoal)" by (simp add: afterGoal_def)
  have i: "allocation (initialState 0) k ''c9'' = None" "readyToAssign (initialState 0) = 0"
    "monthOf day5 = 0" for k
    by (simp_all add: allocation_def ledger_def initialState_def emptyMonth_def day5_def)
  from saveGoal_schedule [OF v m run] m show ?thesis
    by (simp add: i newGoal_def)
qed

section \<open>Editing a transaction\<close>



section \<open>Deleting a transaction\<close>

text \<open>
  C8. Let \<open>t\<close> be a transaction of the ledger of month \<open>m\<close>, the ids of that ledger
  being distinct. The confirmed \<open>handleDeleteTransaction\<close> of \<open>t\<close>'s id removes \<open>t\<close> from
  the transaction list of \<open>m\<close> and changes neither its allocations nor another ledger.
  If \<open>t\<close> is an income, \<open>readyToAssign\<close> goes down by exactly its amount; if it is an
  expense, \<open>readyToAssign\<close> is unchanged.
\<close>

theorem deleteTransaction_pool:
  assumes "t \<in> set (transactions (ledger s m))"
    and "distinct (map tid (transactions (ledger s m)))"
  shows "fst (handleDeleteTransaction (tid t) m True s) = Done \<and>
    transactions (ledger (snd (handleDeleteTransaction (tid t) m True s)) m) =
      remove1 t (transactions (ledger s m)) \<and>
    t \<notin> set (transactions (ledger (snd (handleDeleteTransaction (tid t) m True s)) m)) \<and>
    mcategories (ledger (snd (handleDeleteTransaction (tid t) m True s)) m) =
      mcategories (ledger s m) \<and>
    (\<forall>m'. m' \<noteq> m \<longrightarrow>
       ledger (snd (handleDeleteTransaction (tid t) m True s)) m' = ledger s m') \<and>
    (ttype t = Income \<longrightarrow>
       readyToAssign (snd (handleDeleteTransaction (tid t) m True s)) =
         readyToAssign s - amount t) \<and>
    (ttype t = Expense \<longrightarrow>
       readyToAssign (snd (handleDeleteTransaction (tid t) m True s)) = readyToAssign s)"
proof -
  from assms(2) have "distinct (transactions (ledger s m))" by (simp add: distinct_map)
  then show ?thesis
    by (simp add: handleDeleteTransaction_member [OF assms] renderUI_ledger renderUI_frame
        setMonthData_ledger setMonthData_frame)
qed

theorem deleteTransaction_pool_witness:
  "salary \<in> set (transactions (ledger twoTransactions 0)) \<and>
   fst (handleDeleteTransaction ''t1'' 0 True twoTransactions) = Done \<and>
   transactions (ledger (snd (handleDeleteTransaction ''t1'' 0 True twoTransactions)) 0) =
     [rentPaid] \<and>
   readyToAssign (snd (handleDeleteTransaction ''t1'' 0 True twoTransactions)) = - 70 \<and>
   rentPaid \<in> set (transactions (ledger twoTransactions 0)) \<and>
   transactions (ledger (snd (handleDeleteTransaction ''t2'' 0 True twoTransactions)) 0) =
     [salary] \<and>
   readyToAssign (snd (handleDeleteTransaction ''t2'' 0 True twoTransactions)) = 30"
proof -
  have l: "transactions (ledger twoTransactions 0) = [salary, rentPaid]"
    "readyToAssign twoTransactions = 30"
    by (simp_all add: twoTransactions_def ledger_def initialState_def)
  have f: "tid salary = ''t1''" "tid rentPaid = ''t2''" "ttype salary = Income"
    "ttype rentPaid = Expense" "amount salary = 100" "salary \<noteq> rentPaid"
    by (simp_all add: salary_def rentPaid_def)
  have h1: "salary \<in> set (transactions (ledger twoTransactions 0))"
    and h2: "rentPaid \<in> set (transactions (ledger twoTransactions 0))"
    and d: "distinct (map tid (transactions (ledger twoTransactions 0)))"
    by (simp_all add: l f)
  from deleteTransaction_pool [OF h1 d] deleteTransaction_pool [OF h2 d] h1 h2 f
  show ?thesis by (simp add: l)
qed

section \<open>Copying the categories to the next month\<close>

text \<open>
  C9. \<open>copyCategories\<close> works on the month after the one on display. There, a category
  id that had an allocation keeps it, an id without one gets the allocation 0 when a
  listed category of that id is active, and no allocation otherwise. Every other ledger,
  every transaction list, \<open>readyToAssign\<close>, the categories, the debts and the goals are
  unchanged. The number reported is the number of active categories that had no
  allocation in that month (the keys of the \<open>categories\<close> object being distinct).
\<close>

theorem copyCategories_frame:
  assumes run: "copyCategories s = (n, s')"
    and nxt: "nextMonth = currentMonth s + 1"
  shows "(\<forall>k. allocation s' nextMonth k =
            (case allocation s nextMonth k of
               Some a \<Rightarrow> Some a
             | None \<Rightarrow> if activeCategory s k then Some 0 else None)) \<and>
    (\<forall>m. m \<noteq> nextMonth \<longrightarrow> ledger s' m = ledger s m) \<and>
    (\<forall>m. transactions (ledger s' m) = transactions (ledger s m)) \<and>
    readyToAssign s' = readyToAssign s \<and>
    categories s' = categories s \<and> debtList s' = debtList s \<and> goals s' = goals s \<and>
    (distinct (map fst (categories s)) \<longrightarrow>
       n = length (filter (\<lambda>kc. isActive (snd kc) \<and> allocation s nextMonth (fst kc) = None)
                     (categories s)))"
proof -
  note res = copyCategories_result [of s, folded nxt]
  from run res have n: "n = snd (copyLoop (categories s) (mcategories (ledger s nextMonth)) 0)"
    and s': "s' = (if 0 < snd (copyLoop (categories s) (mcategories (ledger s nextMonth)) 0)
       then renderUI else id)
      (setMonthData nextMonth
        ((ledger s nextMonth)\<lparr>mcategories :=
           fst (copyLoop (categories s) (mcategories (ledger s nextMonth)) 0)\<rparr>)
        (snd (getMonthData nextMonth (snd (getMonthData (currentMonth s) s)))))"
    by auto
  have led: "ledger s' m = (if m = nextMonth
      then (ledger s nextMonth)\<lparr>mcategories :=
           fst (copyLoop (categories s) (mcategories (ledger s nextMonth)) 0)\<rparr>
      else ledger s m)" for m
    by (simp add: s' renderUI_ledger setMonthData_ledger getMonthData_ledger)
  have f: "readyToAssign s' = readyToAssign s" "categories s' = categories s"
    "debtList s' = debtList s" "goals s' = goals s"
    by (simp_all add: s' renderUI_frame setMonthData_frame getMonthData_frame)
  have cnt: "n = length (filter (\<lambda>kc. isActive (snd kc) \<and> allocation s nextMonth (fst kc) = None)
                     (categories s))" if "distinct (map fst (categories s))"
    by (simp add: n copyLoop_count [OF that] allocation_def)
  have al: "allocation s' nextMonth k =
            (case allocation s nextMonth k of
               Some a \<Rightarrow> Some a
             | None \<Rightarrow> if activeCategory s k then Some 0 else None)" for k
  proof -
    have "mcategories (ledger s' nextMonth) =
        fst (copyLoop (categories s) (mcategories (ledger s nextMonth)) 0)"
      by (simp add: led)
    then show ?thesis
      unfolding activeCategory_def allocation_def by (simp only: copyLoop_lookup)
  qed
  from f cnt al show ?thesis
    by (simp add: led)
qed

theorem copyCategories_frame_witness:
  "fst (copyCategories threeCategories) = 1 \<and>
   allocation (snd (copyCategories threeCategories)) 1 ''rent'' = Some 70 \<and>
   allocation (snd (copyCategories threeCategories)) 1 ''food'' = Some 0 \<and>
   allocation (snd (copyCategories threeCategories)) 1 ''old'' = None \<and>
   transactions (ledger (snd (copyCategories threeCategories)) 1) = [rentPaid] \<and>
   readyToAssign (snd (copyCategories threeCategories)) = 30"
proof -
  let ?run = "copyCategories threeCategories"
  have run: "?run = (fst ?run, snd ?run)" by simp
  have nxt: "1 = currentMonth threeCategories + 1"
    by (simp add: threeCategories_def initialState_def)
  have a: "allocation threeCategories 1 ''rent'' = Some 70"
    "allocation threeCategories 1 ''food'' = None"
    "allocation threeCategories 1 ''old'' = None"
    "transactions (ledger threeCategories 1) = [rentPaid]"
    "readyToAssign threeCategories = 30"
    by (simp_all add: threeCategories_def initialState_def allocation_def ledger_def)
  have act: "activeCategory threeCategories ''food''" "\<not> activeCategory threeCategories ''old''"
    by (auto simp add: activeCategory_def threeCategories_def initialState_def)
  have d: "distinct (map fst (categories threeCategories))"
    by (simp add: threeCategories_def initialState_def)
  have cnt: "length (filter (\<lambda>kc. isActive (snd kc) \<and> allocation threeCategories 1 (fst kc) = None)
       (categories threeCategories)) = 1"
    by (simp add: threeCategories_def initialState_def allocation_def ledger_def)
  from copyCategories_frame [OF run nxt] d show ?thesis
    by (simp add: a act cnt)
qed

section \<open>Deleting an income is not guarded by the pool\<close>

text \<open>
  C10. In every state, the confirmed deletion of an income transaction \<open>t\<close> (of a ledger
  with distinct ids) succeeds and takes \<open>t\<close>'s amount from \<open>readyToAssign\<close>, whatever the
  pool holds. In particular, after an income of 100 is recorded in a new document
  and fully assigned by \<open>setAllocation\<close> (pool 0), deleting the income succeeds and
  leaves \<open>readyToAssign\<close> at -100.
\<close>

theorem deleteIncome_unguarded:
  "(\<forall>s m t. t \<in> set (transactions (ledger s m)) \<and>
        distinct (map tid (transactions (ledger s m))) \<and> ttype t = Income \<longrightarrow>
      fst (handleDeleteTransaction (tid t) m True s) = Done \<and>
      readyToAssign (snd (handleDeleteTransaction (tid t) m True s)) =
        readyToAssign s - amount t) \<and>
   readyToAssign afterIncome = 100 \<and>
   fst (setAllocation 0 ''rent'' 100 afterIncome) = Done \<and>
   readyToAssign afterAllocation = 0 \<and>
   fst (handleDeleteTransaction ''t1'' 0 True afterAllocation) = Done \<and>
   readyToAssign afterDeletion = - 100 \<and>
   readyToAssign afterDeletion < 0"
proof -
  have a: "afterIncome =
    (initialState 0)\<lparr>budgets := [(0, \<lparr>mcategories = [], transactions = [salary]\<rparr>)],
      readyToAssign := 100\<rparr>"
    by (simp add: afterIncome_def recordTransaction_def initialState_def getMonthData_def
        isDuplicateTransaction_def insertTransaction_def setMonthData_def pushTransaction_def
        updateReadyToAssign_def emptyMonth_def salary_def day5_def Let_def renderUI_def)
  have b: "setAllocation 0 ''rent'' 100 afterIncome = (Done,
    (initialState 0)\<lparr>budgets := [(0, \<lparr>mcategories = [(''rent'', 100)],
      transactions = [salary]\<rparr>)], readyToAssign := 0\<rparr>)"
    by (simp add: a setAllocation_def updateCategoryAssigned_def initialState_def
        getMonthData_def setMonthData_def setAssigned_def assignedOr0_def Let_def renderUI_def)
  have c: "handleDeleteTransaction ''t1'' 0 True afterAllocation = (Done,
    (initialState 0)\<lparr>budgets := [(0, \<lparr>mcategories = [(''rent'', 100)],
      transactions = []\<rparr>)], readyToAssign := - 100\<rparr>)"
    by (simp add: afterAllocation_def b handleDeleteTransaction_def initialState_def
        setMonthData_def splice1_def salary_def Let_def renderUI_def getMonthData_def)
  have u: "\<forall>s m t. t \<in> set (transactions (ledger s m)) \<and>
        distinct (map tid (transactions (ledger s m))) \<and> ttype t = Income \<longrightarrow>
      fst (handleDeleteTransaction (tid t) m True s) = Done \<and>
      readyToAssign (snd (handleDeleteTransaction (tid t) m True s)) =
        readyToAssign s - amount t"
    by (simp add: handleDeleteTransaction_member renderUI_frame setMonthData_frame)
  have p1: "readyToAssign afterIncome = 100"
    by (simp add: a)
  have p2: "fst (setAllocation 0 ''rent'' 100 afterIncome) = Done"
    by (simp add: b)
  have p3: "readyToAssign afterAllocation = 0"
    by (simp add: afterAllocation_def b)
  have p4: "fst (handleDeleteTransaction ''t1'' 0 True afterAllocation) = Done"
    by (simp add: c)
  have p5: "readyToAssign afterDeletion = - 100"
    by (simp add: afterDeletion_def c)
  from u p1 p2 p3 p4 p5 show ?thesis by simp
qed

theorem deleteIncome_unguarded_witness:
  "salary \<in> set (transactions (ledger twoTransactions 0)) \<and>
   ttype salary = Income \<and>
   readyToAssign twoTransactions = 30 \<and>
   fst (handleDeleteTransaction (tid salary) 0 True twoTransactions) = Done \<and>
   readyToAssign (snd (handleDeleteTransaction (tid salary) 0 True twoTransactions)) = - 70"
proof -
  have l: "transactions (ledger twoTransactions 0) = [salary, rentPaid]"
    "readyToAssign twoTransactions = 30"
    by (simp_all add: twoTransactions_def ledger_def initialState_def)
  have f: "tid salary = ''t1''" "tid rentPaid = ''t2''" "ttype salary = Income"
    "amount salary = 100"
    by (simp_all add: salary_def rentPaid_def)
  have h: "salary \<in> set (transactions (ledger twoTransactions 0)) \<and>
        distinct (map tid (transactions (ledger twoTransactions 0))) \<and> ttype salary = Income"
    by (simp add: l f)
  from deleteIncome_unguarded h
  have "fst (handleDeleteTransaction (tid salary) 0 True twoTransactions) = Done \<and>
      readyToAssign (snd (handleDeleteTransaction (tid salary) 0 True twoTransactions)) =
        readyToAssign twoTransactions - amount salary"
    by blast
  with h show ?thesis by (simp add: l f)
qed

end
